theory Spec2Isabelle
  imports Complex_Main "HOL-Library.Log_Nat"
begin

section \<open>JavaScript values and numbers\<close>

text \<open>
  The components read the fields of a stock record out of a parsed JSON body, so a field
  holds any JSON primitive, or \<open>undefined\<close> when the key is missing. A JavaScript number
  is an IEEE 754 binary64 value: a finite one is written with its exact rational value
  (the two zeros are not told apart: no expression of the components distinguishes them),
  the others are \<open>NaN\<close> and the two infinities.
\<close>

datatype jsnum = NaN | Fin rat | PosInf | NegInf

text \<open>
  A JavaScript string is the list of its UTF-16 code units. What the components print by
  themselves (digits, signs, fixed words) is ASCII and is kept as a \<open>string\<close>; \<open>js\<close> turns
  such a text into the JavaScript string of the same characters.
\<close>

type_synonym jsstring = "nat list"

definition js :: "string \<Rightarrow> jsstring" where
  "js s = map of_char s"

datatype jsval = JUndefined | JNull | JBool bool | JNum jsnum | JStr jsstring

datatype jserror = TypeError

text \<open>The relational operators \<open>>=\<close> and \<open>>\<close> on numbers: false as soon as one side is \<open>NaN\<close>.\<close>

fun js_ge :: "jsnum \<Rightarrow> jsnum \<Rightarrow> bool" where
  "js_ge NaN _ = False"
| "js_ge _ NaN = False"
| "js_ge PosInf _ = True"
| "js_ge _ NegInf = True"
| "js_ge NegInf _ = False"
| "js_ge _ PosInf = False"
| "js_ge (Fin a) (Fin b) = (b \<le> a)"

fun js_gt :: "jsnum \<Rightarrow> jsnum \<Rightarrow> bool" where
  "js_gt NaN _ = False"
| "js_gt _ NaN = False"
| "js_gt NegInf _ = False"
| "js_gt _ PosInf = False"
| "js_gt PosInf _ = True"
| "js_gt _ NegInf = True"
| "js_gt (Fin a) (Fin b) = (b < a)"

fun js_neg :: "jsnum \<Rightarrow> jsnum" where
  "js_neg NaN = NaN"
| "js_neg (Fin a) = Fin (- a)"
| "js_neg PosInf = NegInf"
| "js_neg NegInf = PosInf"

subsection \<open>Rounding to binary64\<close>

definition pow2 :: "int \<Rightarrow> rat" where
  "pow2 e = (if 0 \<le> e then 2 ^ nat e else 1 / 2 ^ nat (- e))"

definition pow10 :: "int \<Rightarrow> rat" where
  "pow10 e = (if 0 \<le> e then 10 ^ nat e else 1 / 10 ^ nat (- e))"

text \<open>For \<open>0 < q\<close>, the integer \<open>e\<close> with \<open>2 ^ e \<le> q < 2 ^ (e + 1)\<close>.\<close>

definition floor_log2 :: "rat \<Rightarrow> int" where
  "floor_log2 q = (if 1 \<le> q then bitlen \<lfloor>q\<rfloor> - 1 else - bitlen (\<lceil>1 / q\<rceil> - 1))"

definition round_half_even :: "rat \<Rightarrow> int" where
  "round_half_even q =
     (let f = \<lfloor>q\<rfloor>; d = q - of_int f
      in if d < 1 / 2 then f else if 1 / 2 < d then f + 1 else if even f then f else f + 1)"

text \<open>
  Round to nearest, ties to even, on the binary64 grid: 53 significant bits, the least
  quantum \<open>2 ^ -1074\<close>, overflow to infinity from \<open>2 ^ 1024\<close> on.
\<close>

definition round64_pos :: "rat \<Rightarrow> jsnum" where
  "round64_pos q =
     (let e = max (floor_log2 q - 52) (- 1074);
          v = of_int (round_half_even (q / pow2 e)) * pow2 e
      in if 2 ^ 1024 \<le> v then PosInf else Fin v)"

definition round64 :: "rat \<Rightarrow> jsnum" where
  "round64 q =
     (if q = 0 then Fin 0 else if 0 < q then round64_pos q else js_neg (round64_pos (- q)))"

text \<open>\<open>x / c\<close> for a positive constant \<open>c\<close>, as the components divide.\<close>

fun js_div :: "jsnum \<Rightarrow> rat \<Rightarrow> jsnum" where
  "js_div NaN c = NaN"
| "js_div PosInf c = PosInf"
| "js_div NegInf c = NegInf"
| "js_div (Fin a) c = round64 (a / c)"

subsection \<open>Printing numbers\<close>

definition digitChar :: "nat \<Rightarrow> char" where
  "digitChar d = ''0123456789'' ! d"

fun digitsOf :: "nat \<Rightarrow> string" where
  "digitsOf n = (if n < 10 then [digitChar n] else digitsOf (n div 10) @ [digitChar (n mod 10)])"

declare digitsOf.simps [simp del]

text \<open>
  \<open>Number::toString\<close> of a finite \<open>x \<ge> 10 ^ 21\<close> (always an integer): the shortest digit
  string \<open>s\<close> of \<open>k\<close> digits with \<open>s * 10 ^ (n - k)\<close> rounding back to \<open>x\<close>, the one nearest
  to \<open>x\<close> when two do, printed as \<open>d.ddde+N\<close>. Seventeen digits are enough for a binary64
  value; for a rational that is none, no digit string may round back to it, and the
  digits of its integer part stand in.
\<close>

definition expCandidates :: "rat \<Rightarrow> nat \<Rightarrow> nat \<Rightarrow> (nat \<times> nat) list" where
  "expCandidates x n k =
     (let lo = nat \<lfloor>x / 10 ^ (n - k)\<rfloor>;
          hi = (if lo + 1 = 10 ^ k then (10 ^ (k - 1), n + 1) else (lo + 1, n))
      in filter (\<lambda>(s, m). round64 (of_nat s * 10 ^ (m - k)) = Fin x) [(lo, n), hi])"

definition nearest :: "rat \<Rightarrow> nat \<Rightarrow> (nat \<times> nat) list \<Rightarrow> (nat \<times> nat) option" where
  "nearest x k cs =
     (case cs of
        [] \<Rightarrow> None
      | [c] \<Rightarrow> Some c
      | c # d # _ \<Rightarrow>
          (let dist = (\<lambda>(s, m). \<bar>of_nat s * 10 ^ (m - k) - x\<bar>)
           in if dist d < dist c \<or> (dist d = dist c \<and> even (fst d)) then Some d else Some c))"

fun shortest :: "rat \<Rightarrow> nat \<Rightarrow> nat list \<Rightarrow> (nat \<times> nat \<times> nat) option" where
  "shortest x n [] = None"
| "shortest x n (k # ks) =
     (case nearest x k (expCandidates x n k) of
        Some (s, m) \<Rightarrow> Some (k, s, m)
      | None \<Rightarrow> shortest x n ks)"

definition expString :: "rat \<Rightarrow> string" where
  "expString x =
     (let n = length (digitsOf (nat \<lfloor>x\<rfloor>))
      in case shortest x n [1 ..< 18] of
           None \<Rightarrow> digitsOf (nat \<lfloor>x\<rfloor>)
         | Some (k, s, m) \<Rightarrow>
             (let ds = digitsOf s
              in (if k = 1 then ds else hd ds # CHR ''.'' # tl ds) @ ''e+'' @ digitsOf (m - 1)))"

text \<open>
  \<open>Number.prototype.toFixed(f)\<close>: the non-finite values print by name; a magnitude from
  \<open>10 ^ 21\<close> on prints as \<open>Number::toString\<close> does; otherwise the integer \<open>n\<close> nearest to
  \<open>x * 10 ^ f\<close> (the larger one at a tie) is printed with \<open>f\<close> digits after the point.
\<close>

definition fixedDigits :: "rat \<Rightarrow> nat \<Rightarrow> string" where
  "fixedDigits x f =
     (let n = nat \<lfloor>x * 10 ^ f + 1 / 2\<rfloor>;
          m = digitsOf n;
          m' = (if f \<noteq> 0 \<and> length m \<le> f then replicate (f + 1 - length m) CHR ''0'' @ m else m);
          k = length m'
      in if f = 0 then m' else take (k - f) m' @ ''.'' @ drop (k - f) m')"

fun toFixed :: "jsnum \<Rightarrow> nat \<Rightarrow> string" where
  "toFixed NaN f = ''NaN''"
| "toFixed PosInf f = ''Infinity''"
| "toFixed NegInf f = ''-Infinity''"
| "toFixed (Fin x) f =
     (let s = (if x < 0 then ''-'' else '''');
          a = \<bar>x\<bar>
      in if 10 ^ 21 \<le> a then s @ expString a else s @ fixedDigits a f)"

declare toFixed.simps [simp del]

subsection \<open>Trimming and upper case\<close>

text \<open>
  The code units that \<open>trim\<close> and the conversion of a string to a number strip: the white
  space (TAB, VT, FF, U+FEFF and the space separators U+0020, U+00A0, U+1680, U+2000 to
  U+200A, U+202F, U+205F, U+3000) and the line terminators (LF, CR, U+2028, U+2029).
\<close>

definition isWhiteSpace :: "nat \<Rightarrow> bool" where
  "isWhiteSpace u =
     (u \<in> set [9, 10, 11, 12, 13, 32, 160, 5760, 8232, 8233, 8239, 8287, 12288, 65279] \<or>
      (8192 \<le> u \<and> u \<le> 8202))"

definition trim :: "jsstring \<Rightarrow> jsstring" where
  "trim s = rev (dropWhile isWhiteSpace (rev (dropWhile isWhiteSpace s)))"

text \<open>
  \<open>toUpperCase\<close> maps each code point by the default case conversion of Unicode (here
  that of Unicode 14.0, the simple mappings of UnicodeData and the unconditional ones of
  SpecialCasing), with no regard to locale or context. The one-to-one mappings are given
  as runs \<open>(first, last, step, offset)\<close>: every \<open>step\<close>-th code point from \<open>first\<close> to
  \<open>last\<close> moves by \<open>offset\<close>; the first run that holds a code point decides. The mappings
  to several code points are listed one by one and come first.
\<close>

definition upperRuns :: "(nat \<times> nat \<times> nat \<times> int) list" where
  "upperRuns =
     [
      (97, 122, 1, - 32), (181, 181, 1, 743), (224, 246, 1, - 32), (248, 254, 1, - 32),
      (255, 255, 1, 121), (257, 303, 2, - 1), (305, 305, 1, - 232), (307, 311, 2, - 1),
      (314, 328, 2, - 1), (331, 375, 2, - 1), (378, 382, 2, - 1), (383, 383, 1, - 300),
      (384, 384, 1, 195), (387, 389, 2, - 1), (392, 392, 1, - 1), (396, 396, 1, - 1),
      (402, 402, 1, - 1), (405, 405, 1, 97), (409, 409, 1, - 1), (410, 410, 1, 163),
      (414, 414, 1, 130), (417, 421, 2, - 1), (424, 424, 1, - 1), (429, 429, 1, - 1),
      (432, 432, 1, - 1), (436, 438, 2, - 1), (441, 441, 1, - 1), (445, 445, 1, - 1),
      (447, 447, 1, 56), (453, 453, 1, - 1), (454, 454, 1, - 2), (456, 456, 1, - 1),
      (457, 457, 1, - 2), (459, 459, 1, - 1), (460, 460, 1, - 2), (462, 476, 2, - 1),
      (477, 477, 1, - 79), (479, 495, 2, - 1), (498, 498, 1, - 1), (499, 499, 1, - 2),
      (501, 501, 1, - 1), (505, 543, 2, - 1), (547, 563, 2, - 1), (572, 572, 1, - 1),
      (575, 576, 1, 10815), (578, 578, 1, - 1), (583, 591, 2, - 1), (592, 592, 1, 10783),
      (593, 593, 1, 10780), (594, 594, 1, 10782), (595, 595, 1, - 210), (596, 596, 1, - 206),
      (598, 599, 1, - 205), (601, 601, 1, - 202), (603, 603, 1, - 203), (604, 604, 1, 42319),
      (608, 608, 1, - 205), (609, 609, 1, 42315), (611, 611, 1, - 207), (613, 613, 1, 42280),
      (614, 614, 1, 42308), (616, 616, 1, - 209), (617, 617, 1, - 211), (618, 618, 1, 42308),
      (619, 619, 1, 10743), (620, 620, 1, 42305), (623, 623, 1, - 211), (625, 625, 1, 10749),
      (626, 626, 1, - 213), (629, 629, 1, - 214), (637, 637, 1, 10727), (640, 640, 1, - 218),
      (642, 642, 1, 42307), (643, 643, 1, - 218), (647, 647, 1, 42282), (648, 648, 1, - 218),
      (649, 649, 1, - 69), (650, 651, 1, - 217), (652, 652, 1, - 71), (658, 658, 1, - 219),
      (669, 669, 1, 42261), (670, 670, 1, 42258), (837, 837, 1, 84), (881, 883, 2, - 1),
      (887, 887, 1, - 1), (891, 893, 1, 130), (940, 940, 1, - 38), (941, 943, 1, - 37),
      (945, 961, 1, - 32), (962, 962, 1, - 31), (963, 971, 1, - 32), (972, 972, 1, - 64),
      (973, 974, 1, - 63), (976, 976, 1, - 62), (977, 977, 1, - 57), (981, 981, 1, - 47),
      (982, 982, 1, - 54), (983, 983, 1, - 8), (985, 1007, 2, - 1), (1008, 1008, 1, - 86),
      (1009, 1009, 1, - 80), (1010, 1010, 1, 7), (1011, 1011, 1, - 116), (1013, 1013, 1, - 96),
      (1016, 1016, 1, - 1), (1019, 1019, 1, - 1), (1072, 1103, 1, - 32), (1104, 1119, 1, - 80),
      (1121, 1153, 2, - 1), (1163, 1215, 2, - 1), (1218, 1230, 2, - 1), (1231, 1231, 1, - 15),
      (1233, 1327, 2, - 1), (1377, 1414, 1, - 48), (4304, 4346, 1, 3008), (4349, 4351, 1, 3008),
      (5112, 5117, 1, - 8), (7296, 7296, 1, - 6254), (7297, 7297, 1, - 6253), (7298, 7298, 1, - 6244),
      (7299, 7300, 1, - 6242), (7301, 7301, 1, - 6243), (7302, 7302, 1, - 6236), (7303, 7303, 1, - 6181),
      (7304, 7304, 1, 35266), (7545, 7545, 1, 35332), (7549, 7549, 1, 3814), (7566, 7566, 1, 35384),
      (7681, 7829, 2, - 1), (7835, 7835, 1, - 59), (7841, 7935, 2, - 1), (7936, 7943, 1, 8),
      (7952, 7957, 1, 8), (7968, 7975, 1, 8), (7984, 7991, 1, 8), (8000, 8005, 1, 8),
      (8017, 8023, 2, 8), (8032, 8039, 1, 8), (8048, 8049, 1, 74), (8050, 8053, 1, 86),
      (8054, 8055, 1, 100), (8056, 8057, 1, 128), (8058, 8059, 1, 112), (8060, 8061, 1, 126),
      (8112, 8113, 1, 8), (8126, 8126, 1, - 7205), (8144, 8145, 1, 8), (8160, 8161, 1, 8),
      (8165, 8165, 1, 7), (8526, 8526, 1, - 28), (8560, 8575, 1, - 16), (8580, 8580, 1, - 1),
      (9424, 9449, 1, - 26), (11312, 11359, 1, - 48), (11361, 11361, 1, - 1), (11365, 11365, 1, - 10795),
      (11366, 11366, 1, - 10792), (11368, 11372, 2, - 1), (11379, 11379, 1, - 1), (11382, 11382, 1, - 1),
      (11393, 11491, 2, - 1), (11500, 11502, 2, - 1), (11507, 11507, 1, - 1), (11520, 11557, 1, - 7264),
      (11559, 11559, 1, - 7264), (11565, 11565, 1, - 7264), (42561, 42605, 2, - 1), (42625, 42651, 2, - 1),
      (42787, 42799, 2, - 1), (42803, 42863, 2, - 1), (42874, 42876, 2, - 1), (42879, 42887, 2, - 1),
      (42892, 42892, 1, - 1), (42897, 42899, 2, - 1), (42900, 42900, 1, 48), (42903, 42921, 2, - 1),
      (42933, 42947, 2, - 1), (42952, 42954, 2, - 1), (42961, 42961, 1, - 1), (42967, 42969, 2, - 1),
      (42998, 42998, 1, - 1), (43859, 43859, 1, - 928), (43888, 43967, 1, - 38864), (65345, 65370, 1, - 32),
      (66600, 66639, 1, - 40), (66776, 66811, 1, - 40), (66967, 67003, 2, - 39), (66968, 66976, 2, - 39),
      (66980, 66992, 2, - 39), (66996, 67000, 2, - 39), (67004, 67004, 1, - 39), (68800, 68850, 1, - 64),
      (71872, 71903, 1, - 32), (93792, 93823, 1, - 32), (125218, 125251, 1, - 34)
     ]"

definition upperSpecial :: "(nat \<times> nat list) list" where
  "upperSpecial =
     [
      (223, [83, 83]), (329, [700, 78]), (496, [74, 780]), (912, [921, 776, 769]),
      (944, [933, 776, 769]), (1415, [1333, 1362]), (7830, [72, 817]), (7831, [84, 776]),
      (7832, [87, 778]), (7833, [89, 778]), (7834, [65, 702]), (8016, [933, 787]),
      (8018, [933, 787, 768]), (8020, [933, 787, 769]), (8022, [933, 787, 834]), (8064, [7944, 921]),
      (8065, [7945, 921]), (8066, [7946, 921]), (8067, [7947, 921]), (8068, [7948, 921]),
      (8069, [7949, 921]), (8070, [7950, 921]), (8071, [7951, 921]), (8072, [7944, 921]),
      (8073, [7945, 921]), (8074, [7946, 921]), (8075, [7947, 921]), (8076, [7948, 921]),
      (8077, [7949, 921]), (8078, [7950, 921]), (8079, [7951, 921]), (8080, [7976, 921]),
      (8081, [7977, 921]), (8082, [7978, 921]), (8083, [7979, 921]), (8084, [7980, 921]),
      (8085, [7981, 921]), (8086, [7982, 921]), (8087, [7983, 921]), (8088, [7976, 921]),
      (8089, [7977, 921]), (8090, [7978, 921]), (8091, [7979, 921]), (8092, [7980, 921]),
      (8093, [7981, 921]), (8094, [7982, 921]), (8095, [7983, 921]), (8096, [8040, 921]),
      (8097, [8041, 921]), (8098, [8042, 921]), (8099, [8043, 921]), (8100, [8044, 921]),
      (8101, [8045, 921]), (8102, [8046, 921]), (8103, [8047, 921]), (8104, [8040, 921]),
      (8105, [8041, 921]), (8106, [8042, 921]), (8107, [8043, 921]), (8108, [8044, 921]),
      (8109, [8045, 921]), (8110, [8046, 921]), (8111, [8047, 921]), (8114, [8122, 921]),
      (8115, [913, 921]), (8116, [902, 921]), (8118, [913, 834]), (8119, [913, 834, 921]),
      (8124, [913, 921]), (8130, [8138, 921]), (8131, [919, 921]), (8132, [905, 921]),
      (8134, [919, 834]), (8135, [919, 834, 921]), (8140, [919, 921]), (8146, [921, 776, 768]),
      (8147, [921, 776, 769]), (8150, [921, 834]), (8151, [921, 776, 834]), (8162, [933, 776, 768]),
      (8163, [933, 776, 769]), (8164, [929, 787]), (8166, [933, 834]), (8167, [933, 776, 834]),
      (8178, [8186, 921]), (8179, [937, 921]), (8180, [911, 921]), (8182, [937, 834]),
      (8183, [937, 834, 921]), (8188, [937, 921]), (64256, [70, 70]), (64257, [70, 73]),
      (64258, [70, 76]), (64259, [70, 70, 73]), (64260, [70, 70, 76]), (64261, [83, 84]),
      (64262, [83, 84]), (64275, [1348, 1350]), (64276, [1348, 1333]), (64277, [1348, 1339]),
      (64278, [1358, 1350]), (64279, [1348, 1341])
     ]"

definition inRun :: "nat \<Rightarrow> nat \<times> nat \<times> nat \<times> int \<Rightarrow> bool" where
  "inRun cp r = (case r of (lo, hi, step, off) \<Rightarrow> lo \<le> cp \<and> cp \<le> hi \<and> (cp - lo) mod step = 0)"

definition upperCodePoint :: "nat \<Rightarrow> nat list" where
  "upperCodePoint cp =
     (case map_of upperSpecial cp of
        Some cps \<Rightarrow> cps
      | None \<Rightarrow>
          (case find (inRun cp) upperRuns of
             Some (lo, hi, step, off) \<Rightarrow> [nat (int cp + off)]
           | None \<Rightarrow> [cp]))"

text \<open>
  Code points beyond U+FFFF are pairs of surrogates in a string; a surrogate with no
  partner is a code point of its own, and has no upper case.
\<close>

definition isHighSurrogate :: "nat \<Rightarrow> bool" where
  "isHighSurrogate u = (55296 \<le> u \<and> u \<le> 56319)"

definition isLowSurrogate :: "nat \<Rightarrow> bool" where
  "isLowSurrogate u = (56320 \<le> u \<and> u \<le> 57343)"

definition codePointOf :: "nat \<Rightarrow> nat \<Rightarrow> nat" where
  "codePointOf hi lo = 65536 + (hi - 55296) * 1024 + (lo - 56320)"

definition codeUnits :: "nat \<Rightarrow> jsstring" where
  "codeUnits cp =
     (if cp < 65536 then [cp]
      else [55296 + (cp - 65536) div 1024, 56320 + (cp - 65536) mod 1024])"

definition upperUnits :: "nat \<Rightarrow> jsstring" where
  "upperUnits cp = concat (map codeUnits (upperCodePoint cp))"

fun toUpperCase :: "jsstring \<Rightarrow> jsstring" where
  "toUpperCase [] = []"
| "toUpperCase [u] = upperUnits u"
| "toUpperCase (u # v # r) =
     (if isHighSurrogate u \<and> isLowSurrogate v then upperUnits (codePointOf u v) @ toUpperCase r
      else upperUnits u @ toUpperCase (v # r))"

subsection \<open>Strings as numbers\<close>

text \<open>
  \<open>StringToNumber\<close> follows the grammar of a numeric string literal: white space around
  it, then nothing (zero), a \<open>0x\<close>, \<open>0o\<close> or \<open>0b\<close> integer, or a signed decimal literal;
  anything else is \<open>NaN\<close>. The exact value of the literal is rounded to binary64.
\<close>

definition digitValue :: "nat \<Rightarrow> nat option" where
  "digitValue u =
     (if 48 \<le> u \<and> u \<le> 57 then Some (u - 48)
      else if 97 \<le> u \<and> u \<le> 102 then Some (u - 87)
      else if 65 \<le> u \<and> u \<le> 70 then Some (u - 55)
      else None)"

definition isDigitIn :: "nat \<Rightarrow> nat \<Rightarrow> bool" where
  "isDigitIn b c = (case digitValue c of Some d \<Rightarrow> d < b | None \<Rightarrow> False)"

definition digitsValue :: "nat \<Rightarrow> jsstring \<Rightarrow> nat" where
  "digitsValue b s = foldl (\<lambda>a c. b * a + (case digitValue c of Some d \<Rightarrow> d | None \<Rightarrow> 0)) 0 s"

text \<open>\<open>0x\<close>, \<open>0o\<close> and \<open>0b\<close> literals: no sign, at least one digit.\<close>

definition radixOf :: "nat \<Rightarrow> nat option" where
  "radixOf p =
     (if p = of_char CHR ''x'' \<or> p = of_char CHR ''X'' then Some 16
      else if p = of_char CHR ''o'' \<or> p = of_char CHR ''O'' then Some 8
      else if p = of_char CHR ''b'' \<or> p = of_char CHR ''B'' then Some 2
      else None)"

definition nonDecimalIntegerLiteral :: "jsstring \<Rightarrow> rat option" where
  "nonDecimalIntegerLiteral s =
     (case s of
        z # p # d # ds \<Rightarrow>
          (case radixOf p of
             Some b \<Rightarrow>
               if z = of_char CHR ''0'' \<and> list_all (isDigitIn b) (d # ds)
               then Some (of_nat (digitsValue b (d # ds))) else None
           | None \<Rightarrow> None)
      | _ \<Rightarrow> None)"

text \<open>The exponent part: nothing, or \<open>e\<close> or \<open>E\<close>, an optional sign and at least one digit.\<close>

definition decimalDigits :: "jsstring \<Rightarrow> nat option" where
  "decimalDigits s = (if s \<noteq> [] \<and> list_all (isDigitIn 10) s then Some (digitsValue 10 s) else None)"

definition exponentPart :: "jsstring \<Rightarrow> int option" where
  "exponentPart s =
     (case s of
        [] \<Rightarrow> Some 0
      | c # r \<Rightarrow>
          if c = of_char CHR ''e'' \<or> c = of_char CHR ''E'' then
            (case r of
               [] \<Rightarrow> None
             | g # t \<Rightarrow>
                 if g = of_char CHR ''+'' then map_option int (decimalDigits t)
                 else if g = of_char CHR ''-'' then map_option (\<lambda>n. - int n) (decimalDigits t)
                 else map_option int (decimalDigits r))
          else None)"

text \<open>
  An unsigned decimal literal: \<open>Infinity\<close>, or digits with an optional point and
  exponent, with a digit before or after the point. The value is the exact one; it is
  rounded once, at the end.
\<close>

definition strUnsignedDecimalLiteral :: "jsstring \<Rightarrow> jsnum option" where
  "strUnsignedDecimalLiteral s =
     (if s = js ''Infinity'' then Some PosInf
      else
        (let ip = takeWhile (isDigitIn 10) s;
             r1 = dropWhile (isDigitIn 10) s;
             fp = (case r1 of [] \<Rightarrow> [] | c # t \<Rightarrow> if c = of_char CHR ''.'' then takeWhile (isDigitIn 10) t else []);
             r2 = (case r1 of [] \<Rightarrow> [] | c # t \<Rightarrow> if c = of_char CHR ''.'' then dropWhile (isDigitIn 10) t else r1)
         in if ip = [] \<and> fp = [] then None
            else
              (case exponentPart r2 of
                 None \<Rightarrow> None
               | Some e \<Rightarrow> Some (Fin (of_nat (digitsValue 10 (ip @ fp)) * pow10 (e - int (length fp)))))))"

definition strDecimalLiteral :: "jsstring \<Rightarrow> jsnum option" where
  "strDecimalLiteral s =
     (case s of
        [] \<Rightarrow> None
      | c # r \<Rightarrow>
          if c = of_char CHR ''+'' then strUnsignedDecimalLiteral r
          else if c = of_char CHR ''-'' then map_option js_neg (strUnsignedDecimalLiteral r)
          else strUnsignedDecimalLiteral s)"

fun roundNumber :: "jsnum \<Rightarrow> jsnum" where
  "roundNumber (Fin q) = round64 q"
| "roundNumber x = x"

definition StringToNumber :: "jsstring \<Rightarrow> jsnum" where
  "StringToNumber s =
     (let t = trim s
      in if t = [] then Fin 0
         else
           (case nonDecimalIntegerLiteral t of
              Some n \<Rightarrow> round64 n
            | None \<Rightarrow> (case strDecimalLiteral t of Some v \<Rightarrow> roundNumber v | None \<Rightarrow> NaN)))"

fun ToNumber :: "jsval \<Rightarrow> jsnum" where
  "ToNumber JUndefined = NaN"
| "ToNumber JNull = Fin 0"
| "ToNumber (JBool b) = Fin (if b then 1 else 0)"
| "ToNumber (JNum x) = x"
| "ToNumber (JStr s) = StringToNumber s"

subsection \<open>Method calls and template literals\<close>

text \<open>
  \<open>v.toFixed(f)\<close>: reading a property of \<open>null\<close> or \<open>undefined\<close> throws; a string or a
  boolean has no \<open>toFixed\<close>, so the call throws. \<open>v?.toFixed(f)\<close> is \<open>undefined\<close> for
  \<open>null\<close> and \<open>undefined\<close> and the same call otherwise.
\<close>

fun callToFixed :: "jsval \<Rightarrow> nat \<Rightarrow> jserror + string" where
  "callToFixed (JNum x) f = Inr (toFixed x f)"
| "callToFixed v f = Inl TypeError"

fun optToFixed :: "jsval \<Rightarrow> nat \<Rightarrow> jserror + string option" where
  "optToFixed JUndefined f = Inr None"
| "optToFixed JNull f = Inr None"
| "optToFixed (JNum x) f = Inr (Some (toFixed x f))"
| "optToFixed v f = Inl TypeError"

text \<open>A value in a template literal, and as a child of a JSX element.\<close>

fun template :: "string option \<Rightarrow> string" where
  "template None = ''undefined''"
| "template (Some s) = s"

fun child :: "string option \<Rightarrow> string" where
  "child None = []"
| "child (Some s) = s"

section \<open>formatNumber\<close>

text \<open>
  \<^verbatim>\<open>src/frontend/src/components/StockCard.js\<close>, lines 13 to 24, and the same text in
  \<^verbatim>\<open>src/frontend/src/pages/StockPage.js\<close>, lines 43 to 54. The comparisons convert
  their left side with \<open>ToNumber\<close>; so does the division.
\<close>

definition formatNumber :: "jsval \<Rightarrow> jserror + string" where
  "formatNumber num =
     (if num = JStr (js ''N/A'') then Inr ''N/A''
      else if js_ge (ToNumber num) (Fin 1000000000)
        then Inr (''$'' @ toFixed (js_div (ToNumber num) 1000000000) 2 @ ''B'')
      else if js_ge (ToNumber num) (Fin 1000000)
        then Inr (''$'' @ toFixed (js_div (ToNumber num) 1000000) 2 @ ''M'')
      else if js_ge (ToNumber num) (Fin 1000)
        then Inr (''$'' @ toFixed (js_div (ToNumber num) 1000) 2 @ ''K'')
      else (case optToFixed num 2 of
              Inl e \<Rightarrow> Inl e
            | Inr r \<Rightarrow> Inr (''$'' @ template r)))"

section \<open>The stock record and the change chip\<close>

text \<open>
  The object the backend sends for one stock, as both components read it: every field is
  whatever JSON value (or nothing) the body held under that key.
\<close>

record stock =
  ticker :: jsval
  name :: jsval
  price :: jsval
  change :: jsval
  marketCap :: jsval
  volume :: jsval
  averageVolume :: jsval
  dividend :: jsval
  pe :: jsval
  eps :: jsval
  targetLow :: jsval
  targetHigh :: jsval
  recommendation :: jsval

datatype chip_icon = TrendingUpIcon | TrendingDownIcon

datatype chip_color = ColorSuccess | ColorError

datatype chip_size = SizeSmall | SizeMedium

record chip =
  icon :: chip_icon
  label :: string
  color :: chip_color
  size :: chip_size

section \<open>StockCard\<close>

text \<open>
  \<^verbatim>\<open>src/frontend/src/components/StockCard.js\<close>, lines 26 to 74: the chip, the price line,
  the market cap line and the P/E line. Rendering throws when one of its expressions
  does. A string child is shown as it is; \<open>null\<close>, \<open>undefined\<close> and booleans show nothing.
\<close>

record card_view =
  card_chip :: chip
  card_price :: jsstring
  card_marketCap :: string
  card_pe :: string

definition StockCard :: "stock \<Rightarrow> jserror + card_view" where
  "StockCard stock =
     (let isPositive = js_gt (ToNumber (change stock)) (Fin 0)
      in case optToFixed (change stock) 2 of
           Inl e \<Rightarrow> Inl e
         | Inr c \<Rightarrow>
        (case formatNumber (marketCap stock) of
           Inl e \<Rightarrow> Inl e
         | Inr mc \<Rightarrow>
        (case (if pe stock \<noteq> JStr (js ''N/A'') then optToFixed (pe stock) 2 else Inr (Some ''N/A'')) of
           Inl e \<Rightarrow> Inl e
         | Inr p \<Rightarrow>
             Inr \<lparr>card_chip =
                    \<lparr>icon = (if isPositive then TrendingUpIcon else TrendingDownIcon),
                     label = (if isPositive then ''+'' else '''') @ template c @ ''%'',
                     color = (if isPositive then ColorSuccess else ColorError),
                     size = SizeSmall\<rparr>,
                  card_price =
                    (case price stock of
                       JNum x \<Rightarrow> js (''$'' @ toFixed x 2)
                     | JStr s \<Rightarrow> s
                     | _ \<Rightarrow> []),
                  card_marketCap = ''Market Cap: '' @ mc,
                  card_pe = ''P/E: '' @ child p\<rparr>)))"

section \<open>StockPage\<close>

subsection \<open>State and responses\<close>

text \<open>
  An axios call either rejects (network failure, a status outside 2xx) or resolves with a
  body. \<open>response.data.success\<close> throws on a \<open>null\<close> body (\<open>NoBody\<close>); any other body has
  a \<open>success\<close> value (\<open>undefined\<close> when the key is missing) and a payload under \<open>data\<close>
  (\<open>None\<close> when it is \<open>null\<close> or missing).
\<close>

datatype 'a body = NoBody | Body jsval "'a option"

datatype 'a response = Rejected | Resolved "'a body"

fun truthy :: "jsval \<Rightarrow> bool" where
  "truthy JUndefined = False"
| "truthy JNull = False"
| "truthy (JBool b) = b"
| "truthy (JNum x) = (x \<noteq> NaN \<and> x \<noteq> Fin 0)"
| "truthy (JStr s) = (s \<noteq> [])"

record history_point =
  date :: jsval
  close :: jsval

text \<open>The eight \<open>useState\<close> cells of the page, lines 60 to 67.\<close>

record page_state =
  stockInfo :: "stock option"
  stockHistory :: "history_point list option"
  loading :: bool
  error :: "string option"
  tabValue :: nat
  timeRange :: string
  analysis :: "string option"
  analysisLoading :: bool

definition initialState :: page_state where
  "initialState =
     \<lparr>stockInfo = None, stockHistory = None, loading = True, error = None, tabValue = 0,
      timeRange = ''1y'', analysis = None, analysisLoading = False\<rparr>"

definition timeRanges :: "(string \<times> string) list" where
  "timeRanges =
     [(''1M'', ''1mo''), (''3M'', ''3mo''), (''6M'', ''6mo''), (''1Y'', ''1y''), (''5Y'', ''5y'')]"

text \<open>The requests the page sends: the path after \<open>API_URL\<close>, with the ticker and the period.\<close>

datatype request =
  GetStockInfo string
| GetStockHistory string string
| PostAnalyze string

subsection \<open>Handlers\<close>

text \<open>
  Each handler is run to its end on the responses it meets, and returns the requests it
  sent with the state it leaves. In \<open>handleAnalyze\<close>, lines 118 to 131, the payload is
  \<open>response.data.data.analysis\<close>: reading it throws when \<open>data.data\<close> is missing. \<open>fetchHistoricalData\<close>, lines 102 to 112: the request is
  sent first; a rejection and a \<open>TypeError\<close> on the body are caught and logged.
\<close>

definition fetchHistoricalData ::
  "string \<Rightarrow> string \<Rightarrow> history_point list response \<Rightarrow> page_state \<Rightarrow> request list \<times> page_state"
where
  "fetchHistoricalData t period historyResponse s =
     ([GetStockHistory t period],
      (case historyResponse of
         Rejected \<Rightarrow> s
       | Resolved NoBody \<Rightarrow> s
       | Resolved (Body success d) \<Rightarrow>
           if truthy success then s\<lparr>stockHistory := d, timeRange := period\<rparr> else s))"

text \<open>
  \<open>fetchStockData\<close>, lines 78 to 97, the effect run on mount and when the ticker changes;
  the period it asks for is the \<open>timeRange\<close> of the render that started it.
\<close>

definition loadFailed :: string where
  "loadFailed = ''Failed to load stock data. Please try again later.''"

definition fetchStockData ::
  "string \<Rightarrow> stock response \<Rightarrow> history_point list response \<Rightarrow> page_state \<Rightarrow> request list \<times> page_state"
where
  "fetchStockData t infoResponse historyResponse s =
     (let s1 = s\<lparr>loading := True, error := None\<rparr>
      in case infoResponse of
           Rejected \<Rightarrow> ([GetStockInfo t], s1\<lparr>error := Some loadFailed, loading := False\<rparr>)
         | Resolved NoBody \<Rightarrow> ([GetStockInfo t], s1\<lparr>error := Some loadFailed, loading := False\<rparr>)
         | Resolved (Body success d) \<Rightarrow>
             (let s2 = (if truthy success then s1\<lparr>stockInfo := d\<rparr> else s1);
                  (reqs, s3) = fetchHistoricalData t (timeRange s) historyResponse s2
              in (GetStockInfo t # reqs, s3\<lparr>loading := False\<rparr>)))"

definition handleTabChange :: "nat \<Rightarrow> page_state \<Rightarrow> page_state" where
  "handleTabChange newValue s = s\<lparr>tabValue := newValue\<rparr>"

definition analyzeFailed :: string where
  "analyzeFailed = ''Failed to analyze stock. Please try again later.''"

definition handleAnalyze ::
  "string \<Rightarrow> string option response \<Rightarrow> page_state \<Rightarrow> request list \<times> page_state"
where
  "handleAnalyze t response s =
     ([PostAnalyze t],
      (case response of
         Rejected \<Rightarrow> s\<lparr>error := Some analyzeFailed, analysisLoading := False\<rparr>
       | Resolved NoBody \<Rightarrow> s\<lparr>error := Some analyzeFailed, analysisLoading := False\<rparr>
       | Resolved (Body success d) \<Rightarrow>
           if truthy success then
             (case d of
                None \<Rightarrow> s\<lparr>error := Some analyzeFailed, analysisLoading := False\<rparr>
              | Some a \<Rightarrow> s\<lparr>analysis := a, analysisLoading := False\<rparr>)
           else s\<lparr>analysisLoading := False\<rparr>))"

text \<open>
  What can happen to a mounted page: the effect runs, one of the range buttons (made
  from \<open>timeRanges\<close>, line 303) is clicked, a tab is chosen, the analysis is asked for.
  The page offers the buttons on the chart tab only; here a click may come in any state,
  and a click on a button that does not exist does nothing.
\<close>

datatype event =
  TickerEffect "stock response" "history_point list response"
| ClickRange nat "history_point list response"
| TabChange nat
| Analyze "string option response"

fun handle :: "string \<Rightarrow> event \<Rightarrow> page_state \<Rightarrow> request list \<times> page_state" where
  "handle t (TickerEffect i h) s = fetchStockData t i h s"
| "handle t (ClickRange k h) s =
     (if k < length timeRanges then fetchHistoricalData t (snd (timeRanges ! k)) h s else ([], s))"
| "handle t (TabChange v) s = ([], handleTabChange v s)"
| "handle t (Analyze r) s = handleAnalyze t r s"

fun run :: "string \<Rightarrow> event list \<Rightarrow> page_state \<Rightarrow> request list \<times> page_state" where
  "run t [] s = ([], s)"
| "run t (e # es) s =
     (let (reqs, s') = handle t e s; (reqs', s'') = run t es s' in (reqs @ reqs', s''))"

subsection \<open>Rendering\<close>

text \<open>
  Lines 133 to 366. The page shows a spinner while loading, then the error, then the
  warning that nothing was found when \<open>stockInfo\<close> is still \<open>null\<close>; otherwise the header
  (ticker, price, chip) and the chosen tab. An expression of a tab that is not chosen is
  not evaluated. A field of the overview guarded by \<open>!== 'N/A'\<close> calls \<open>toFixed\<close> with no
  \<open>?.\<close>; the price in the header is not guarded.
\<close>

definition guarded :: "string \<Rightarrow> jsval \<Rightarrow> string \<Rightarrow> jserror + string" where
  "guarded pre v suf =
     (if v \<noteq> JStr (js ''N/A'')
      then (case callToFixed v 2 of Inl e \<Rightarrow> Inl e | Inr d \<Rightarrow> Inr (pre @ d @ suf))
      else Inr ''N/A'')"

record overview =
  ov_marketCap :: string
  ov_volume :: string
  ov_averageVolume :: string
  ov_dividend :: string
  ov_pe :: string
  ov_eps :: string
  ov_targetLow :: string
  ov_targetHigh :: string

definition renderOverview :: "stock \<Rightarrow> jserror + overview" where
  "renderOverview info =
     (case formatNumber (marketCap info) of Inl e \<Rightarrow> Inl e | Inr mc \<Rightarrow>
     (case formatNumber (volume info) of Inl e \<Rightarrow> Inl e | Inr vol \<Rightarrow>
     (case formatNumber (averageVolume info) of Inl e \<Rightarrow> Inl e | Inr avg \<Rightarrow>
     (case guarded [] (dividend info) ''%'' of Inl e \<Rightarrow> Inl e | Inr dv \<Rightarrow>
     (case guarded [] (pe info) [] of Inl e \<Rightarrow> Inl e | Inr p \<Rightarrow>
     (case guarded ''$'' (eps info) [] of Inl e \<Rightarrow> Inl e | Inr ep \<Rightarrow>
     (case guarded ''$'' (targetLow info) [] of Inl e \<Rightarrow> Inl e | Inr lo \<Rightarrow>
     (case guarded ''$'' (targetHigh info) [] of Inl e \<Rightarrow> Inl e | Inr hi \<Rightarrow>
        Inr \<lparr>ov_marketCap = mc, ov_volume = vol, ov_averageVolume = avg, ov_dividend = dv,
             ov_pe = p, ov_eps = ep, ov_targetLow = lo, ov_targetHigh = hi\<rparr>))))))))"

datatype tab_view =
  OverviewTab overview
| ChartTab "(string \<times> bool) list" "history_point list option"
| AnalysisTab "string option" bool
| NoTab

definition renderTab :: "page_state \<Rightarrow> stock \<Rightarrow> jserror + tab_view" where
  "renderTab s info =
     (if tabValue s = 0 then
        (case renderOverview info of Inl e \<Rightarrow> Inl e | Inr ov \<Rightarrow> Inr (OverviewTab ov))
      else if tabValue s = 1 then
        Inr (ChartTab (map (\<lambda>(l, v). (l, timeRange s = v)) timeRanges) (stockHistory s))
      else if tabValue s = 2 then Inr (AnalysisTab (analysis s) (analysisLoading s))
      else Inr NoTab)"

record page_view =
  pv_ticker :: string
  pv_price :: string
  pv_chip :: chip
  pv_tab :: tab_view

datatype view =
  Spinner
| ErrorAlert string
| NotFoundAlert string
| Detail page_view

definition renderDetail :: "string \<Rightarrow> page_state \<Rightarrow> stock \<Rightarrow> jserror + view" where
  "renderDetail t s info =
     (let isPositive = js_gt (ToNumber (change info)) (Fin 0)
      in case optToFixed (price info) 2 of
           Inl e \<Rightarrow> Inl e
         | Inr p \<Rightarrow>
        (case optToFixed (change info) 2 of
           Inl e \<Rightarrow> Inl e
         | Inr c \<Rightarrow>
        (case renderTab s info of
           Inl e \<Rightarrow> Inl e
         | Inr tab \<Rightarrow>
             Inr (Detail
               \<lparr>pv_ticker = t,
                pv_price = ''$'' @ child p,
                pv_chip =
                  \<lparr>icon = (if isPositive then TrendingUpIcon else TrendingDownIcon),
                   label = (if isPositive then ''+'' else '''') @ template c @ ''%'',
                   color = (if isPositive then ColorSuccess else ColorError),
                   size = SizeMedium\<rparr>,
                pv_tab = tab\<rparr>))))"

definition StockPage :: "string \<Rightarrow> page_state \<Rightarrow> jserror + view" where
  "StockPage t s =
     (if loading s then Inr Spinner
      else
        (case error s of
           Some m \<Rightarrow>
             if m \<noteq> [] then Inr (ErrorAlert m)
             else (case stockInfo s of
                     None \<Rightarrow> Inr (NotFoundAlert (''Stock data not found for ticker: '' @ t))
                   | Some i \<Rightarrow> renderDetail t s i)
         | None \<Rightarrow>
             (case stockInfo s of
                None \<Rightarrow> Inr (NotFoundAlert (''Stock data not found for ticker: '' @ t))
              | Some i \<Rightarrow> renderDetail t s i)))"

section \<open>Facts about the number model\<close>

text \<open>A plain amount: an optional minus sign, digits, a point and two digits.\<close>

definition isDigitChar :: "char \<Rightarrow> bool" where
  "isDigitChar c = isDigitIn 10 (of_char c)"

definition twoDecimals :: "string \<Rightarrow> bool" where
  "twoDecimals s =
     (let n = length s
      in 4 \<le> n \<and> s ! (n - 3) = CHR ''.'' \<and> list_all isDigitChar (take (n - 3) s) \<and>
         list_all isDigitChar (drop (n - 2) s))"

definition plainAmount :: "string \<Rightarrow> bool" where
  "plainAmount s =
     (case s of [] \<Rightarrow> False | c # r \<Rightarrow> if c = CHR ''-'' then twoDecimals r else twoDecimals s)"

lemma digitChar_digit: "d < 10 \<Longrightarrow> isDigitChar (digitChar d)"
proof -
  assume "d < 10"
  then have "d \<in> {0, 1, 2, 3, 4, 5, 6, 7, 8, 9}" by auto
  then show ?thesis
    by (auto simp: digitChar_def isDigitChar_def isDigitIn_def digitValue_def)
qed

lemma digitsOf_digits: "list_all isDigitChar (digitsOf n)"
proof (induction n rule: digitsOf.induct)
  case (1 n)
  show ?case
  proof (cases "n < 10")
    case True
    then show ?thesis by (subst digitsOf.simps) (simp add: digitChar_digit)
  next
    case False
    with 1 show ?thesis by (subst digitsOf.simps) (simp add: digitChar_digit)
  qed
qed

lemma digit_not_sign: "isDigitChar c \<Longrightarrow> c \<noteq> CHR ''-'' \<and> c \<noteq> CHR ''+''"
  by (auto simp: isDigitChar_def isDigitIn_def digitValue_def)

lemma twoDecimals_split:
  assumes "ip \<noteq> []" "length fp = 2" "list_all isDigitChar ip" "list_all isDigitChar fp"
  shows "twoDecimals (ip @ ''.'' @ fp)"
proof -
  have n: "length (ip @ ''.'' @ fp) = length ip + 3" using assms by simp
  have "(ip @ ''.'' @ fp) ! (length ip) = CHR ''.''" by (simp add: nth_append)
  moreover have "take (length ip) (ip @ ''.'' @ fp) = ip" by simp
  moreover have "drop (length ip + 1) (ip @ ''.'' @ fp) = fp" by simp
  moreover have "4 \<le> length ip + 3" using assms(1) by (cases ip) auto
  ultimately show ?thesis using assms unfolding twoDecimals_def Let_def n by simp
qed

lemma fixedDigits_shape:
  "\<exists>ip fp. fixedDigits a 2 = ip @ ''.'' @ fp \<and> ip \<noteq> [] \<and> length fp = 2 \<and>
     list_all isDigitChar ip \<and> list_all isDigitChar fp"
proof -
  define m where "m = digitsOf (nat \<lfloor>a * 10 ^ 2 + 1 / 2\<rfloor>)"
  define m' where "m' = (if length m \<le> 2 then replicate (3 - length m) CHR ''0'' @ m else m)"
  have dm: "list_all isDigitChar m" unfolding m_def by (rule digitsOf_digits)
  have z: "isDigitChar CHR ''0''" by (simp add: isDigitChar_def isDigitIn_def digitValue_def)
  have dm': "list_all isDigitChar m'"
    unfolding m'_def using dm z by (simp add: list_all_iff)
  have len: "3 \<le> length m'" unfolding m'_def by auto
  have eq: "fixedDigits a 2 = take (length m' - 2) m' @ ''.'' @ drop (length m' - 2) m'"
    unfolding fixedDigits_def Let_def m'_def m_def by simp
  have "take (length m' - 2) m' \<noteq> []" using len by auto
  moreover have "length (drop (length m' - 2) m') = 2" using len by simp
  moreover have "list_all isDigitChar (take (length m' - 2) m')"
    using dm' by (auto simp: list_all_iff dest: in_set_takeD)
  moreover have "list_all isDigitChar (drop (length m' - 2) m')"
    using dm' by (auto simp: list_all_iff dest: in_set_dropD)
  ultimately show ?thesis using eq by blast
qed

lemma fixedDigits_two: "twoDecimals (fixedDigits a 2)"
  using fixedDigits_shape [of a] twoDecimals_split by metis

lemma fixedDigits_hd: "fixedDigits a 2 \<noteq> [] \<and> isDigitChar (hd (fixedDigits a 2))"
proof -
  obtain ip fp where e: "fixedDigits a 2 = ip @ ''.'' @ fp" and ne: "ip \<noteq> []"
    and d: "list_all isDigitChar ip"
    using fixedDigits_shape [of a] by blast
  from ne d have "isDigitChar (hd ip)" by (cases ip) auto
  with e ne show ?thesis by simp
qed

lemma toFixed_plain:
  assumes "- (10 ^ 21) < x" "x < 10 ^ 21"
  shows "plainAmount (toFixed (Fin x) 2)"
proof (cases "x < 0")
  case True
  with assms have "toFixed (Fin x) 2 = CHR ''-'' # fixedDigits \<bar>x\<bar> 2"
    by (simp add: toFixed.simps Let_def)
  then show ?thesis by (simp add: plainAmount_def fixedDigits_two)
next
  case False
  with assms have e: "toFixed (Fin x) 2 = fixedDigits \<bar>x\<bar> 2"
    by (simp add: toFixed.simps Let_def)
  obtain c r where cr: "fixedDigits \<bar>x\<bar> 2 = c # r" and "isDigitChar c"
    using fixedDigits_hd [of "\<bar>x\<bar>"] by (cases "fixedDigits \<bar>x\<bar> 2") auto
  then have "c \<noteq> CHR ''-''" using digit_not_sign by blast
  then show ?thesis using fixedDigits_two [of "\<bar>x\<bar>"] by (simp add: plainAmount_def e cr)
qed

lemma toFixed_zero: "toFixed (Fin 0) 2 = ''0.00''"
  by code_simp

lemma toFixed_one: "toFixed (Fin 1) 2 = ''1.00''"
  by code_simp

lemma toFixed_five: "toFixed (Fin 5) 2 = ''5.00''"
  by code_simp


text \<open>An integer below \<open>2 ^ 53\<close> is a binary64 value: rounding leaves it as it is.\<close>

lemma round_half_even_of_int: "round_half_even (of_int m) = m"
  by (simp add: round_half_even_def)

lemma round64_of_int:
  assumes "0 < n" "n < 2 ^ 53"
  shows "round64 (of_int n) = Fin (of_int n)"
proof -
  have fl: "floor_log2 (of_int n) = bitlen n - 1"
    using assms by (simp add: floor_log2_def)
  have b: "bitlen n \<le> 53"
    using assms by (simp add: bitlen_le_iff_power)
  define e where "e = max (bitlen n - 1 - 52) (- 1074)"
  define k where "k = nat (- e)"
  have e: "e \<le> 0" using b by (simp add: e_def)
  have p: "pow2 e = 1 / 2 ^ k"
    using e by (cases "e = 0") (simp_all add: pow2_def k_def)
  have q: "(of_int n :: rat) / pow2 e = of_int (n * 2 ^ k)"
    by (simp add: p)
  have v: "of_int (round_half_even (of_int n / pow2 e)) * pow2 e = (of_int n :: rat)"
    unfolding q round_half_even_of_int by (simp add: p)
  have "(of_int n :: rat) < 2 ^ 53"
    using assms(2) by (metis of_int_less_numeral_power_cancel_iff)
  also have "\<dots> < 2 ^ 1024" by simp
  finally have small: "\<not> (2 ^ 1024 \<le> (of_int n :: rat))" by simp
  have "round64_pos (of_int n) = Fin (of_int n)"
    unfolding round64_pos_def fl e_def [symmetric] Let_def v using small by simp
  then show ?thesis using assms(1) by (simp add: round64_def)
qed

lemma round64_1000: "round64 1000 = Fin 1000"
  using round64_of_int [of 1000] by simp

lemma round64_1: "round64 1 = Fin 1"
  using round64_of_int [of 1] by simp

lemmas StringToNumber_unfold =
  StringToNumber_def js_def trim_def isWhiteSpace_def nonDecimalIntegerLiteral_def radixOf_def
  strDecimalLiteral_def strUnsignedDecimalLiteral_def isDigitIn_def digitValue_def
  exponentPart_def decimalDigits_def digitsValue_def pow10_def Let_def

lemma StringToNumber_1000: "StringToNumber (js ''1000'') = Fin 1000"
  by (simp add: StringToNumber_unfold round64_1000)

lemma StringToNumber_nbsp_1000: "StringToNumber (160 # js ''1000'') = Fin 1000"
  by (simp add: StringToNumber_unfold round64_1000)

lemma StringToNumber_abc: "StringToNumber (js ''abc'') = NaN"
  by (simp add: StringToNumber_unfold)

section \<open>What formatNumber returns\<close>

lemma formatNumber_marker: "formatNumber (JStr (js ''N/A'')) = Inr ''N/A''"
  by (simp add: formatNumber_def)

lemma formatNumber_number:
  "formatNumber (JNum x) =
     Inr (if js_ge x (Fin 1000000000) then ''$'' @ toFixed (js_div x 1000000000) 2 @ ''B''
          else if js_ge x (Fin 1000000) then ''$'' @ toFixed (js_div x 1000000) 2 @ ''M''
          else if js_ge x (Fin 1000) then ''$'' @ toFixed (js_div x 1000) 2 @ ''K''
          else ''$'' @ toFixed x 2)"
  by (simp add: formatNumber_def)

lemma formatNumber_string:
  assumes "s \<noteq> js ''N/A''"
  shows "formatNumber (JStr s) =
     (if js_ge (StringToNumber s) (Fin 1000) then formatNumber (JNum (StringToNumber s))
      else Inl TypeError)"
proof -
  have mono: "js_ge x (Fin 1000000000) \<Longrightarrow> js_ge x (Fin 1000)"
    "js_ge x (Fin 1000000) \<Longrightarrow> js_ge x (Fin 1000)" for x
    by (cases x; simp)+
  show ?thesis
    using assms mono [of "StringToNumber s"] by (auto simp: formatNumber_def)
qed

lemma formatNumber_zero: "formatNumber (JNum (Fin 0)) = Inr ''$0.00''"
  by (simp add: formatNumber_number toFixed_zero)

lemma formatNumber_never_marker: "formatNumber (JNum x) \<noteq> Inr ''N/A''"
  by (simp add: formatNumber_number)

text \<open>
  Claim C10, as the code has it. \<open>formatNumber\<close> does not throw on a number or on the
  marker \<open>'N/A'\<close>: the marker comes back as it is; a finite number from \<open>10 ^ 9\<close> on is
  printed as \<open>$\<close>, the number over \<open>10 ^ 9\<close> with \<open>toFixed(2)\<close>, and \<open>B\<close>; from \<open>10 ^ 6\<close> on
  with \<open>M\<close>; from \<open>10 ^ 3\<close> on with \<open>K\<close>; below that as \<open>$\<close> and \<open>toFixed(2)\<close> of the number,
  which is a plain amount with two decimals when the number is above \<open>- 10 ^ 21\<close>. The
  values that are not finite give \<open>$NaN\<close>, \<open>$InfinityB\<close> and \<open>$-Infinity\<close>. On any other
  string it throws unless the string converts to a number that is at least 1000, and
  then it prints that number.
\<close>

theorem formatNumber_on_numbers_and_strings:
  "formatNumber (JStr (js ''N/A'')) = Inr ''N/A'' \<and>
   formatNumber (JNum (Fin q)) =
     Inr (if 1000000000 \<le> q then ''$'' @ toFixed (js_div (Fin q) 1000000000) 2 @ ''B''
          else if 1000000 \<le> q then ''$'' @ toFixed (js_div (Fin q) 1000000) 2 @ ''M''
          else if 1000 \<le> q then ''$'' @ toFixed (js_div (Fin q) 1000) 2 @ ''K''
          else ''$'' @ toFixed (Fin q) 2) \<and>
   (- (10 ^ 21) < q \<and> q < 1000 \<longrightarrow> plainAmount (toFixed (Fin q) 2)) \<and>
   formatNumber (JNum NaN) = Inr ''$NaN'' \<and>
   formatNumber (JNum PosInf) = Inr ''$InfinityB'' \<and>
   formatNumber (JNum NegInf) = Inr ''$-Infinity'' \<and>
   (s \<noteq> js ''N/A'' \<longrightarrow>
      formatNumber (JStr s) =
        (if js_ge (StringToNumber s) (Fin 1000) then formatNumber (JNum (StringToNumber s))
         else Inl TypeError))"
proof -
  have "- (10 ^ 21) < q \<and> q < 1000 \<longrightarrow> plainAmount (toFixed (Fin q) 2)"
    using toFixed_plain [of q] by simp
  moreover have "formatNumber (JNum NaN) = Inr ''$NaN''"
    "formatNumber (JNum PosInf) = Inr ''$InfinityB''"
    "formatNumber (JNum NegInf) = Inr ''$-Infinity''"
    by (simp_all add: formatNumber_number toFixed.simps)
  ultimately show ?thesis
    using formatNumber_string [of s] by (simp add: formatNumber_marker formatNumber_number)
qed

theorem formatNumber_on_numbers_and_strings_witness:
  "(- (10 ^ 21) < (5 :: rat) \<and> (5 :: rat) < 1000) \<and>
   formatNumber (JNum (Fin 5)) = Inr ''$5.00'' \<and> plainAmount ''5.00'' \<and>
   js ''abc'' \<noteq> js ''N/A'' \<and> formatNumber (JStr (js ''abc'')) = Inl TypeError \<and>
   160 # js ''1000'' \<noteq> js ''N/A'' \<and> formatNumber (JStr (160 # js ''1000'')) = Inr ''$1.00K''"
proof -
  have a: "js ''abc'' \<noteq> js ''N/A''" and b: "160 # js ''1000'' \<noteq> js ''N/A''"
    by (simp_all add: js_def)
  have k: "formatNumber (JNum (Fin 1000)) = Inr ''$1.00K''"
    by (simp add: formatNumber_number round64_1 toFixed_one)
  note w1 = formatNumber_on_numbers_and_strings [of 5 "js ''abc''"]
  note w2 = formatNumber_on_numbers_and_strings [of 5 "160 # js ''1000''"]
  from w1 have 1: "formatNumber (JNum (Fin 5)) = Inr ''$5.00''" and 2: "plainAmount ''5.00''"
    by (simp_all add: toFixed_five)
  from w1 a have 3: "formatNumber (JStr (js ''abc'')) = Inl TypeError"
    by (simp add: StringToNumber_abc)
  from w2 b have 4: "formatNumber (JStr (160 # js ''1000'')) = Inr ''$1.00K''"
    by (simp add: StringToNumber_nbsp_1000 k)
  from a b 1 2 3 4 show ?thesis by simp
qed

theorem formatNumber_numeric_string_counterexample:
  "js ''1000'' \<noteq> js ''N/A'' \<and> formatNumber (JStr (js ''1000'')) = Inr ''$1.00K'' \<and>
   formatNumber (JNum NaN) = Inr ''$NaN'' \<and> \<not> plainAmount ''NaN''"
proof -
  have "js ''1000'' \<noteq> js ''N/A''" by (simp add: js_def)
  moreover from this have "formatNumber (JStr (js ''1000'')) = Inr ''$1.00K''"
    by (simp add: formatNumber_def StringToNumber_1000 round64_1 toFixed_one)
  moreover have "formatNumber (JNum NaN) = Inr ''$NaN''"
    by (simp add: formatNumber_number toFixed.simps)
  moreover have "\<not> plainAmount ''NaN''"
    by (simp add: plainAmount_def twoDecimals_def)
  ultimately show ?thesis by simp
qed

section \<open>The marker and the price\<close>

text \<open>
  A record as the backend sends it when nothing is known but the ticker: the change is
  zero and every other numeric field holds the marker.
\<close>

definition unknownStock :: stock where
  "unknownStock =
     \<lparr>ticker = JStr (js ''AAPL''), name = JStr (js ''Apple Inc.''), price = JStr (js ''N/A''),
      change = JNum (Fin 0), marketCap = JStr (js ''N/A''), volume = JStr (js ''N/A''),
      averageVolume = JStr (js ''N/A''), dividend = JStr (js ''N/A''), pe = JStr (js ''N/A''),
      eps = JStr (js ''N/A''), targetLow = JStr (js ''N/A''), targetHigh = JStr (js ''N/A''),
      recommendation = JStr (js ''N/A'')\<rparr>"

lemma guarded_marker: "guarded pre (JStr (js ''N/A'')) suf = Inr ''N/A''"
  by (simp add: guarded_def)

lemma renderOverview_marker:
  "renderOverview unknownStock =
     Inr \<lparr>ov_marketCap = ''N/A'', ov_volume = ''N/A'', ov_averageVolume = ''N/A'',
          ov_dividend = ''N/A'', ov_pe = ''N/A'', ov_eps = ''N/A'', ov_targetLow = ''N/A'',
          ov_targetHigh = ''N/A''\<rparr>"
  by (simp add: renderOverview_def unknownStock_def formatNumber_marker guarded_marker)

lemma StockCard_marker:
  "StockCard unknownStock =
     Inr \<lparr>card_chip =
            \<lparr>icon = TrendingDownIcon, label = ''0.00%'', color = ColorError, size = SizeSmall\<rparr>,
          card_price = js ''N/A'', card_marketCap = ''Market Cap: N/A'', card_pe = ''P/E: N/A''\<rparr>"
  by (simp add: StockCard_def unknownStock_def formatNumber_marker toFixed_zero)

text \<open>
  Claim C1 at the input where the code leaves it. The card shows the marker of the price
  as it is (\<open>StockCard_marker\<close>), and every guarded field of the detail page shows \<open>N/A\<close>
  (\<open>renderOverview_marker\<close>); the header of the detail page calls \<open>toFixed\<close> on the price
  with no guard for the marker, so for every record whose price is \<open>'N/A'\<close> the page, once
  loaded with no error, throws instead of showing anything.
\<close>

theorem StockPage_price_marker_throws:
  "StockPage t (s\<lparr>loading := False, error := None, stockInfo := Some (info\<lparr>price := JStr (js ''N/A'')\<rparr>)\<rparr>)
     = Inl TypeError"
  by (simp add: StockPage_def renderDetail_def)

section \<open>The change chip\<close>



text \<open>A record whose change is exactly zero, and what the two components make of it.\<close>

definition flatStock :: stock where
  "flatStock =
     \<lparr>ticker = JStr (js ''AAPL''), name = JStr (js ''Apple Inc.''), price = JNum (Fin 5),
      change = JNum (Fin 0), marketCap = JStr (js ''N/A''), volume = JStr (js ''N/A''),
      averageVolume = JStr (js ''N/A''), dividend = JStr (js ''N/A''), pe = JStr (js ''N/A''),
      eps = JStr (js ''N/A''), targetLow = JStr (js ''N/A''), targetHigh = JStr (js ''N/A''),
      recommendation = JStr (js ''N/A'')\<rparr>"









section \<open>The history request\<close>

text \<open>
  Claim C8. \<open>fetchHistoricalData\<close> leaves the whole state as it was when the request is
  rejected, when the body cannot be read, and when \<open>success\<close> is \<open>false\<close> (or anything
  falsy); on a successful response it sets \<open>stockHistory\<close> to the payload and \<open>timeRange\<close>
  to the period asked for, both at once and nothing else. So if either of the two cells
  differs afterwards, the response was successful and both were written.
\<close>

theorem fetchHistoricalData_state:
  "snd (fetchHistoricalData t period Rejected s) = s \<and>
   snd (fetchHistoricalData t period (Resolved NoBody) s) = s \<and>
   snd (fetchHistoricalData t period (Resolved (Body (JBool False) d)) s) = s \<and>
   (\<not> truthy success \<longrightarrow> snd (fetchHistoricalData t period (Resolved (Body success d)) s) = s) \<and>
   (truthy success \<longrightarrow>
      snd (fetchHistoricalData t period (Resolved (Body success d)) s) =
        s\<lparr>stockHistory := d, timeRange := period\<rparr>) \<and>
   (stockHistory (snd (fetchHistoricalData t period r s)) \<noteq> stockHistory s \<or>
    timeRange (snd (fetchHistoricalData t period r s)) \<noteq> timeRange s \<longrightarrow>
      (\<exists>success' d'. r = Resolved (Body success' d') \<and> truthy success' \<and>
         stockHistory (snd (fetchHistoricalData t period r s)) = d' \<and>
         timeRange (snd (fetchHistoricalData t period r s)) = period))"
proof -
  have "stockHistory (snd (fetchHistoricalData t period r s)) \<noteq> stockHistory s \<or>
      timeRange (snd (fetchHistoricalData t period r s)) \<noteq> timeRange s \<longrightarrow>
        (\<exists>success' d'. r = Resolved (Body success' d') \<and> truthy success' \<and>
           stockHistory (snd (fetchHistoricalData t period r s)) = d' \<and>
           timeRange (snd (fetchHistoricalData t period r s)) = period)"
  proof (cases r)
    case Rejected
    then show ?thesis by (simp add: fetchHistoricalData_def)
  next
    case (Resolved b)
    then show ?thesis by (cases b) (auto simp: fetchHistoricalData_def)
  qed
  then show ?thesis by (simp add: fetchHistoricalData_def)
qed

theorem fetchHistoricalData_state_witness:
  "\<not> truthy (JBool False) \<and>
   snd (fetchHistoricalData ''AAPL'' ''1mo'' (Resolved (Body (JBool False) (Some []))) initialState)
     = initialState \<and>
   truthy (JBool True) \<and>
   snd (fetchHistoricalData ''AAPL'' ''1mo'' (Resolved (Body (JBool True) (Some []))) initialState)
     = initialState\<lparr>stockHistory := Some [], timeRange := ''1mo''\<rparr> \<and>
   timeRange (initialState\<lparr>stockHistory := Some [], timeRange := ''1mo''\<rparr>)
     \<noteq> timeRange initialState"
proof -
  note f = fetchHistoricalData_state
    [of "''AAPL''" "''1mo''" initialState "Some []" "JBool False"]
  note t = fetchHistoricalData_state
    [of "''AAPL''" "''1mo''" initialState "Some []" "JBool True"]
  have a: "\<not> truthy (JBool False)" and b: "truthy (JBool True)" by simp_all
  from f a have 1: "snd (fetchHistoricalData ''AAPL'' ''1mo''
      (Resolved (Body (JBool False) (Some []))) initialState) = initialState"
    by blast
  from t b have 2: "snd (fetchHistoricalData ''AAPL'' ''1mo''
      (Resolved (Body (JBool True) (Some []))) initialState)
        = initialState\<lparr>stockHistory := Some [], timeRange := ''1mo''\<rparr>"
    by blast
  have 3: "timeRange (initialState\<lparr>stockHistory := Some [], timeRange := ''1mo''\<rparr>)
      \<noteq> timeRange initialState"
    by (simp add: initialState_def)
  from a b 1 2 3 show ?thesis by blast
qed

section \<open>The search form\<close>

text \<open>
  \<open>handleSearch\<close> of the home page (\<^verbatim>\<open>src/README.md\<close>, lines 259 to 264, holds the text of
  the page). The result is the address the window is sent to, \<open>None\<close> when the handler
  does not navigate.
\<close>

definition handleSearch :: "jsstring \<Rightarrow> jsstring option" where
  "handleSearch searchTerm =
     (if trim searchTerm \<noteq> [] then Some (js ''/stock/'' @ toUpperCase (trim searchTerm)) else None)"

section \<open>The retrieval pipeline\<close>

text \<open>
  Modelled from the spec: the backend (Upstream Client, Local Fallback Store, Cache Layer,
  Retrieval Pipeline, Popularity Counter) is not among the sources, which hold the React
  frontend only. The definitions of this section follow sections 3, 4 and 7 of the spec.
\<close>

text \<open>Modelled from the spec: the failure reasons of the Upstream Client (4.1).\<close>

datatype failure = RateLimited | NotFound | Unavailable

text \<open>
  Modelled from the spec: the provenance tag of a record (3), with the fourth marker for
  total failure (4.4, step 5).
\<close>

datatype source_tag = LIVE | CACHED | FALLBACK | TOTAL_FAILURE

text \<open>
  Modelled from the spec: the StockRecord of section 3. \<open>None\<close> is the "unavailable"
  marker; the change has one too, since the worst case of 4.4 marks all numeric fields.
  A ticker is normalized with the \<open>trim\<close> and \<open>toUpperCase\<close> of the search form.
\<close>

record StockRecord =
  rec_ticker :: jsstring
  rec_name :: jsstring
  rec_price :: "rat option"
  rec_change :: "rat option"
  rec_marketCap :: "nat option"
  rec_volume :: "nat option"
  rec_averageVolume :: "nat option"
  rec_dividendYield :: "rat option"
  rec_pe :: "rat option"
  rec_eps :: "rat option"
  rec_targetLow :: "rat option"
  rec_targetHigh :: "rat option"
  rec_recommendation :: "jsstring option"
  sourceTag :: source_tag

text \<open>
  Modelled from the spec: the synthetic "unavailable" record of 4.4, every numeric field
  marked and the tag that of total failure.
\<close>

definition unavailableRecord :: "jsstring \<Rightarrow> StockRecord" where
  "unavailableRecord t =
     \<lparr>rec_ticker = t, rec_name = [], rec_price = None, rec_change = None, rec_marketCap = None,
      rec_volume = None, rec_averageVolume = None, rec_dividendYield = None, rec_pe = None,
      rec_eps = None, rec_targetLow = None, rec_targetHigh = None, rec_recommendation = None,
      sourceTag = TOTAL_FAILURE\<rparr>"

text \<open>Modelled from the spec: the ticker format invariant (3): uppercase, 1 to 5 alnum chars.\<close>

definition isUpperAlnum :: "nat \<Rightarrow> bool" where
  "isUpperAlnum u = ((65 \<le> u \<and> u \<le> 90) \<or> (48 \<le> u \<and> u \<le> 57))"

definition tickerFormat :: "jsstring \<Rightarrow> bool" where
  "tickerFormat t = (1 \<le> length t \<and> length t \<le> 5 \<and> list_all isUpperAlnum t)"

text \<open>
  Modelled from the spec: the collaborators of the pipeline (4.1 to 4.3): the two calls
  of the Upstream Client, the lookup of the Local Fallback Store, and the ceiling beyond
  which a cache entry counts as absent. The history series is left open.
\<close>

record 'h collaborators =
  fetchQuote :: "jsstring \<Rightarrow> failure + StockRecord"
  fetchHistory :: "jsstring \<Rightarrow> string \<Rightarrow> failure + 'h"
  lookupFallback :: "jsstring \<Rightarrow> StockRecord option"
  ceiling_age :: nat

text \<open>
  Modelled from the spec: the shared store of the pipeline (3, 9): the cache entries with
  the time they were fetched, the popularity counts, and, to tell which tier was
  consulted, the list of the calls made so far.
\<close>

datatype tier_call =
  UpstreamQuote jsstring
| UpstreamHistory jsstring string
| CacheGet jsstring
| CachePut jsstring
| FallbackLookup jsstring
| CounterIncrement jsstring

record store =
  cache :: "jsstring \<Rightarrow> (StockRecord \<times> nat) option"
  counter :: "jsstring \<Rightarrow> nat"
  calls :: "tier_call list"

text \<open>Modelled from the spec: the \<open>get\<close> of the Cache Layer (4.3).\<close>

definition cacheGet :: "nat \<Rightarrow> nat \<Rightarrow> store \<Rightarrow> jsstring \<Rightarrow> StockRecord option" where
  "cacheGet ceil now st t =
     (case cache st t of
        None \<Rightarrow> None
      | Some (r, fetchedAt) \<Rightarrow> if now - fetchedAt \<le> ceil then Some r else None)"

text \<open>
  Modelled from the spec: what \<open>getStock\<close> hands to its caller: a record, or the distinct
  "ticker not found" result of 4.4, step 6.
\<close>

datatype outcome = Record StockRecord | TickerNotFound

text \<open>Modelled from the spec: \<open>getStock\<close>, steps 1 to 6 of 4.4, at the time \<open>now\<close>.\<close>

definition getStock :: "'h collaborators \<Rightarrow> nat \<Rightarrow> jsstring \<Rightarrow> store \<Rightarrow> outcome \<times> store" where
  "getStock p now raw st =
     (let t = toUpperCase (trim raw)
      in if t = [] \<or> \<not> tickerFormat t then (Record (unavailableRecord t), st)
         else
           (let st1 = st\<lparr>calls := calls st @ [UpstreamQuote t]\<rparr>
            in case fetchQuote p t of
                 Inr r \<Rightarrow>
                   (Record (r\<lparr>sourceTag := LIVE\<rparr>),
                    st1\<lparr>cache := (cache st1)(t \<mapsto> (r\<lparr>sourceTag := LIVE\<rparr>, now)),
                        counter := (counter st1)(t := counter st1 t + 1),
                        calls := calls st1 @ [CachePut t, CounterIncrement t]\<rparr>)
               | Inl NotFound \<Rightarrow> (TickerNotFound, st1)
               | Inl _ \<Rightarrow>
                   (let st2 = st1\<lparr>calls := calls st1 @ [CacheGet t]\<rparr>
                    in case cacheGet (ceiling_age p) now st t of
                         Some r \<Rightarrow> (Record (r\<lparr>sourceTag := CACHED\<rparr>), st2)
                       | None \<Rightarrow>
                           (let st3 = st2\<lparr>calls := calls st2 @ [FallbackLookup t]\<rparr>
                            in case lookupFallback p t of
                                 Some r \<Rightarrow> (Record (r\<lparr>sourceTag := FALLBACK\<rparr>), st3)
                               | None \<Rightarrow> (Record (unavailableRecord t), st3)))))"

text \<open>Modelled from the spec: the periods of a history request (4.1).\<close>

definition validPeriods :: "string list" where
  "validPeriods = [''1mo'', ''3mo'', ''6mo'', ''1y'', ''5y'']"

text \<open>
  Modelled from the spec: what \<open>getHistory\<close> can fail with: \<open>InvalidParameter\<close> (7), or the
  failure of the Upstream Client, for which no fallback tier is defined (4.4).
\<close>

datatype history_error = InvalidParameter | UpstreamFailed failure

text \<open>
  Modelled from the spec: \<open>getHistory\<close> (4.4, last paragraph, and the fifth property of 8):
  the period is checked before anything is called; a ticker that is empty or ill-formed
  after normalization is a bad parameter as well (7).
\<close>

definition getHistory ::
  "'h collaborators \<Rightarrow> jsstring \<Rightarrow> string \<Rightarrow> store \<Rightarrow> (history_error + 'h) \<times> store"
where
  "getHistory p raw period st =
     (if period \<notin> set validPeriods then (Inl InvalidParameter, st)
      else
        (let t = toUpperCase (trim raw)
         in if t = [] \<or> \<not> tickerFormat t then (Inl InvalidParameter, st)
            else
              (case fetchHistory p t period of
                 Inl f \<Rightarrow> (Inl (UpstreamFailed f), st\<lparr>calls := calls st @ [UpstreamHistory t period]\<rparr>)
               | Inr h \<Rightarrow> (Inr h, st\<lparr>calls := calls st @ [UpstreamHistory t period]\<rparr>))))"

section \<open>Normalizing a ticker\<close>

lemma dropWhile_fixed: "xs = [] \<or> \<not> P (hd xs) \<Longrightarrow> dropWhile P xs = xs"
  by (cases xs) auto

lemma trim_empty_iff: "trim s = [] \<longleftrightarrow> list_all isWhiteSpace s"
proof
  assume "trim s = []"
  then have a: "\<forall>x \<in> set (dropWhile isWhiteSpace s). isWhiteSpace x"
    by (simp add: trim_def dropWhile_eq_Nil_conv)
  have "dropWhile isWhiteSpace s = []"
  proof (rule ccontr)
    assume n: "dropWhile isWhiteSpace s \<noteq> []"
    then have "\<not> isWhiteSpace (hd (dropWhile isWhiteSpace s))" by (rule hd_dropWhile)
    with a n show False by (meson hd_in_set)
  qed
  then show "list_all isWhiteSpace s"
    by (simp add: dropWhile_eq_Nil_conv list_all_iff)
next
  assume "list_all isWhiteSpace s"
  then have "dropWhile isWhiteSpace s = []"
    by (simp add: dropWhile_eq_Nil_conv list_all_iff)
  then show "trim s = []"
    unfolding trim_def by (simp only: rev.simps dropWhile.simps)
qed

lemma trim_fixed:
  assumes "s \<noteq> []" "\<not> isWhiteSpace (hd s)" "\<not> isWhiteSpace (last s)"
  shows "trim s = s"
proof -
  have "dropWhile isWhiteSpace s = s"
    using assms by (simp add: dropWhile_fixed)
  moreover have "dropWhile isWhiteSpace (rev s) = rev s"
    using assms by (simp add: dropWhile_fixed hd_rev)
  ultimately show ?thesis by (simp add: trim_def)
qed

text \<open>The upper-case table starts at \<open>a\<close>: below it nothing moves, and \<open>a\<close> to \<open>z\<close> move by 32.\<close>

lemma upperSpecial_keys: "\<forall>e \<in> set upperSpecial. 223 \<le> fst e"
  by (simp add: upperSpecial_def)

lemma upperRuns_first: "\<forall>r \<in> set upperRuns. 97 \<le> fst r"
  by (simp add: upperRuns_def)

lemma upperSpecial_none: "cp < 223 \<Longrightarrow> map_of upperSpecial cp = None"
  using upperSpecial_keys by (fastforce simp: map_of_eq_None_iff)

lemma upperCodePoint_below: "cp < 97 \<Longrightarrow> upperCodePoint cp = [cp]"
proof -
  assume c: "cp < 97"
  then have "find (inRun cp) upperRuns = None"
    using upperRuns_first by (fastforce simp: find_None_iff inRun_def)
  with c show ?thesis by (simp add: upperCodePoint_def upperSpecial_none)
qed

lemma upperCodePoint_lower: "97 \<le> cp \<Longrightarrow> cp \<le> 122 \<Longrightarrow> upperCodePoint cp = [cp - 32]"
proof -
  assume c: "97 \<le> cp" "cp \<le> 122"
  obtain rest where r: "upperRuns = (97, 122, 1, - 32) # rest"
    by (simp add: upperRuns_def)
  from c have "find (inRun cp) upperRuns = Some (97, 122, 1, - 32)"
    by (simp add: r inRun_def)
  with c show ?thesis by (simp add: upperCodePoint_def upperSpecial_none)
qed

lemma upperCodePoint_e_acute: "upperCodePoint 233 = [201]"
  by (simp add: upperCodePoint_def upperSpecial_def upperRuns_def inRun_def)

lemma upperCodePoint_sharp_s: "upperCodePoint 223 = [83, 83]"
  by (simp add: upperCodePoint_def upperSpecial_def)

lemma toUpperCase_fixed: "list_all (\<lambda>u. u < 97) s \<Longrightarrow> toUpperCase s = s"
  by (induction s rule: toUpperCase.induct)
    (simp_all add: upperUnits_def upperCodePoint_below codeUnits_def isHighSurrogate_def)

lemma tickerFormat_fixed:
  assumes "tickerFormat t"
  shows "toUpperCase (trim t) = t"
proof -
  have a: "\<forall>u \<in> set t. isUpperAlnum u" and n: "t \<noteq> []"
    using assms by (auto simp: tickerFormat_def list_all_iff)
  have w: "\<not> isWhiteSpace u \<and> u < 97" if "isUpperAlnum u" for u
    using that by (auto simp: isUpperAlnum_def isWhiteSpace_def)
  from n have "hd t \<in> set t" "last t \<in> set t" by simp_all
  with a w have "\<not> isWhiteSpace (hd t)" "\<not> isWhiteSpace (last t)" by blast+
  with n have "trim t = t" by (rule trim_fixed)
  moreover from a w have "list_all (\<lambda>u. u < 97) t" by (auto simp: list_all_iff)
  ultimately show ?thesis by (simp add: toUpperCase_fixed)
qed

lemma getStock_calls:
  "\<exists>more. calls (snd (getStock p now raw st)) = calls st @ more \<and>
     set more \<subseteq> {UpstreamQuote (toUpperCase (trim raw)), CacheGet (toUpperCase (trim raw)),
       CachePut (toUpperCase (trim raw)), FallbackLookup (toUpperCase (trim raw)),
       CounterIncrement (toUpperCase (trim raw))}"
  by (auto simp: getStock_def Let_def split: sum.splits failure.splits option.splits)

lemma getStock_normal_form:
  assumes "tickerFormat (toUpperCase (trim raw))"
  shows "getStock p now raw st = getStock p now (toUpperCase (trim raw)) st"
  using tickerFormat_fixed [OF assms] by (simp add: getStock_def)

text \<open>
  Claim C5. \<open>getStock\<close> works on the trimmed, uppercased ticker: two inputs with the same
  normal form give the same result, an input whose normal form is a well-formed ticker
  gives the result of that ticker, which is its own normal form, and every call made to
  a tier names the normal form. On an input that is empty after trimming it returns the
  "unavailable" record at once, the store (and so the list of calls) untouched. The
  search form navigates to \<open>/stock/\<close> followed by the trimmed, uppercased input, and does
  not navigate when the trimmed input is empty, that is, when the input is white space
  only. All of this for every string, with the white space and the upper case of
  JavaScript.
\<close>

theorem ticker_normalization:
  "(toUpperCase (trim raw') = toUpperCase (trim raw) \<longrightarrow>
      getStock p now raw' st = getStock p now raw st) \<and>
   (tickerFormat (toUpperCase (trim raw)) \<longrightarrow>
      getStock p now raw st = getStock p now (toUpperCase (trim raw)) st) \<and>
   (tickerFormat raw \<longrightarrow> toUpperCase (trim raw) = raw) \<and>
   (\<exists>more. calls (snd (getStock p now raw st)) = calls st @ more \<and>
      set more \<subseteq> {UpstreamQuote (toUpperCase (trim raw)), CacheGet (toUpperCase (trim raw)),
        CachePut (toUpperCase (trim raw)), FallbackLookup (toUpperCase (trim raw)),
        CounterIncrement (toUpperCase (trim raw))}) \<and>
   (trim raw = [] \<longrightarrow> getStock p now raw st = (Record (unavailableRecord []), st)) \<and>
   handleSearch raw =
     (if trim raw = [] then None else Some (js ''/stock/'' @ toUpperCase (trim raw))) \<and>
   (handleSearch raw = None \<longleftrightarrow> list_all isWhiteSpace raw)"
proof -
  have 1: "toUpperCase (trim raw') = toUpperCase (trim raw) \<longrightarrow>
      getStock p now raw' st = getStock p now raw st"
    by (simp add: getStock_def)
  have 2: "tickerFormat (toUpperCase (trim raw)) \<longrightarrow>
      getStock p now raw st = getStock p now (toUpperCase (trim raw)) st"
    using getStock_normal_form [of raw p now st] by simp
  have 3: "tickerFormat raw \<longrightarrow> toUpperCase (trim raw) = raw"
    using tickerFormat_fixed [of raw] by simp
  have 4: "trim raw = [] \<longrightarrow> getStock p now raw st = (Record (unavailableRecord []), st)"
    by (simp add: getStock_def)
  have 5: "handleSearch raw =
      (if trim raw = [] then None else Some (js ''/stock/'' @ toUpperCase (trim raw)))"
    by (simp add: handleSearch_def)
  have 6: "handleSearch raw = None \<longleftrightarrow> list_all isWhiteSpace raw"
    by (simp add: handleSearch_def trim_empty_iff)
  from 1 2 3 getStock_calls [of p now raw st] 4 5 6 show ?thesis by blast
qed

text \<open>
  An upstream that is down, and knows that \<open>ZZZZ\<close> does not exist; no fallback table; a
  ceiling of one day, in seconds. A store with nothing in it.
\<close>

definition downCollaborators :: "unit collaborators" where
  "downCollaborators =
     \<lparr>fetchQuote = (\<lambda>t. if t = js ''ZZZZ'' then Inl NotFound else Inl Unavailable),
      fetchHistory = (\<lambda>t period. Inl Unavailable),
      lookupFallback = (\<lambda>t. None),
      ceiling_age = 86400\<rparr>"

definition emptyStore :: store where
  "emptyStore = \<lparr>cache = (\<lambda>t. None), counter = (\<lambda>t. 0), calls = []\<rparr>"

text \<open>
  Inputs of the search form: \<open>aapl\<close> between spaces; \<open>aapl\<close> before a no-break space
  (U+00A0), which \<open>trim\<close> strips; a no-break space and a space; \<open>e\<close> with an acute accent
  (U+00E9), whose upper case is U+00C9; the sharp s (U+00DF), whose upper case is \<open>SS\<close>;
  and a pair of surrogates, the small Deseret letter long i (U+10428), whose upper case is
  U+10400.
\<close>

lemma normalize_aapl: "toUpperCase (trim (js ''  aapl '')) = js ''AAPL''"
  by (simp add: js_def trim_def isWhiteSpace_def upperUnits_def codeUnits_def isHighSurrogate_def
      upperCodePoint_lower)

lemma normalize_AAPL: "toUpperCase (trim (js ''AAPL'')) = js ''AAPL''"
  by (simp add: js_def trim_def isWhiteSpace_def upperUnits_def codeUnits_def isHighSurrogate_def
      upperCodePoint_below)

lemma normalize_aapl_nbsp: "toUpperCase (trim (js ''aapl'' @ [160])) = js ''AAPL''"
  by (simp add: js_def trim_def isWhiteSpace_def upperUnits_def codeUnits_def isHighSurrogate_def
      upperCodePoint_lower)

lemma trim_nbsp: "trim [160, 32] = []"
  by (simp add: trim_def isWhiteSpace_def)

lemma normalize_e_acute: "toUpperCase (trim [233]) = [201]"
  by (simp add: trim_def isWhiteSpace_def upperUnits_def codeUnits_def upperCodePoint_e_acute)

lemma normalize_sharp_s: "toUpperCase (trim [223]) = js ''SS''"
  by (simp add: js_def trim_def isWhiteSpace_def upperUnits_def codeUnits_def upperCodePoint_sharp_s)

lemma normalize_deseret: "toUpperCase (trim [55297, 56360]) = [55297, 56320]"
  by (simp add: trim_def isWhiteSpace_def upperUnits_def codeUnits_def codePointOf_def
      isHighSurrogate_def isLowSurrogate_def upperCodePoint_def upperSpecial_def upperRuns_def
      inRun_def)

theorem ticker_normalization_witness:
  "toUpperCase (trim (js ''AAPL'')) = toUpperCase (trim (js ''  aapl '')) \<and>
   getStock downCollaborators 0 (js ''AAPL'') emptyStore =
     getStock downCollaborators 0 (js ''  aapl '') emptyStore \<and>
   tickerFormat (toUpperCase (trim (js ''  aapl ''))) \<and>
   getStock downCollaborators 0 (js ''  aapl '') emptyStore =
     getStock downCollaborators 0 (toUpperCase (trim (js ''  aapl ''))) emptyStore \<and>
   tickerFormat (js ''AAPL'') \<and> toUpperCase (trim (js ''AAPL'')) = js ''AAPL'' \<and>
   handleSearch (js ''  aapl '') = Some (js ''/stock/AAPL'') \<and>
   handleSearch (js ''aapl'' @ [160]) = Some (js ''/stock/AAPL'') \<and>
   trim [160, 32] = [] \<and> handleSearch [160, 32] = None \<and>
   getStock downCollaborators 0 [160, 32] emptyStore = (Record (unavailableRecord []), emptyStore) \<and>
   handleSearch [233] = Some (js ''/stock/'' @ [201]) \<and>
   handleSearch [223] = Some (js ''/stock/SS'') \<and>
   handleSearch [55297, 56360] = Some (js ''/stock/'' @ [55297, 56320])"
proof -
  have f: "tickerFormat (js ''AAPL'')"
    by (simp add: js_def tickerFormat_def isUpperAlnum_def)
  have e: "toUpperCase (trim (js ''AAPL'')) = toUpperCase (trim (js ''  aapl ''))"
    by (simp only: normalize_aapl normalize_AAPL)
  have j: "js ''/stock/'' @ js ''AAPL'' = js ''/stock/AAPL''"
    and k: "js ''/stock/'' @ js ''SS'' = js ''/stock/SS''"
    by (simp_all add: js_def)
  note w1 = ticker_normalization
    [where raw' = "js ''AAPL''" and raw = "js ''  aapl ''" and p = downCollaborators and now = 0
      and st = emptyStore]
  note w2 = ticker_normalization
    [where raw' = "js ''AAPL''" and raw = "js ''AAPL''" and p = downCollaborators and now = 0
      and st = emptyStore]
  note w3 = ticker_normalization
    [where raw' = "js ''AAPL''" and raw = "js ''aapl'' @ [160]" and p = downCollaborators
      and now = 0 and st = emptyStore]
  note w4 = ticker_normalization
    [where raw' = "js ''AAPL''" and raw = "[160, 32]" and p = downCollaborators and now = 0
      and st = emptyStore]
  note w5 = ticker_normalization
    [where raw' = "js ''AAPL''" and raw = "[233]" and p = downCollaborators and now = 0
      and st = emptyStore]
  note w6 = ticker_normalization
    [where raw' = "js ''AAPL''" and raw = "[223]" and p = downCollaborators and now = 0
      and st = emptyStore]
  note w7 = ticker_normalization
    [where raw' = "js ''AAPL''" and raw = "[55297, 56360]" and p = downCollaborators and now = 0
      and st = emptyStore]
  from w1 e have 1: "getStock downCollaborators 0 (js ''AAPL'') emptyStore =
      getStock downCollaborators 0 (js ''  aapl '') emptyStore"
    by blast
  have g: "tickerFormat (toUpperCase (trim (js ''  aapl '')))"
    using f by (simp only: normalize_aapl)
  with w1 have 2: "getStock downCollaborators 0 (js ''  aapl '') emptyStore =
      getStock downCollaborators 0 (toUpperCase (trim (js ''  aapl ''))) emptyStore"
    by blast
  from w2 f have 3: "toUpperCase (trim (js ''AAPL'')) = js ''AAPL''"
    by blast
  from w1 have "handleSearch (js ''  aapl '') =
      (if trim (js ''  aapl '') = [] then None
       else Some (js ''/stock/'' @ toUpperCase (trim (js ''  aapl ''))))"
    by blast
  moreover have "trim (js ''  aapl '') \<noteq> []"
    using normalize_aapl by (auto simp: js_def)
  ultimately have 4: "handleSearch (js ''  aapl '') = Some (js ''/stock/AAPL'')"
    by (simp add: normalize_aapl j)
  from w3 have "handleSearch (js ''aapl'' @ [160]) =
      (if trim (js ''aapl'' @ [160]) = [] then None
       else Some (js ''/stock/'' @ toUpperCase (trim (js ''aapl'' @ [160]))))"
    by blast
  moreover have "trim (js ''aapl'' @ [160]) \<noteq> []"
    using normalize_aapl_nbsp by (auto simp: js_def)
  ultimately have 5: "handleSearch (js ''aapl'' @ [160]) = Some (js ''/stock/AAPL'')"
    by (simp add: normalize_aapl_nbsp j)
  from w4 trim_nbsp have 6: "getStock downCollaborators 0 [160, 32] emptyStore =
      (Record (unavailableRecord []), emptyStore)"
    and "handleSearch [160, 32] =
      (if trim [160, 32] = [] then None else Some (js ''/stock/'' @ toUpperCase (trim [160, 32])))"
    by blast+
  then have 7: "handleSearch [160, 32] = None"
    by (simp add: trim_nbsp)
  from w5 have "handleSearch [233] =
      (if trim [233] = [] then None else Some (js ''/stock/'' @ toUpperCase (trim [233])))"
    by blast
  moreover have "trim [233] \<noteq> []"
    using normalize_e_acute by auto
  ultimately have 8: "handleSearch [233] = Some (js ''/stock/'' @ [201])"
    by (simp add: normalize_e_acute)
  from w6 have "handleSearch [223] =
      (if trim [223] = [] then None else Some (js ''/stock/'' @ toUpperCase (trim [223])))"
    by blast
  moreover have "trim [223] \<noteq> []"
    using normalize_sharp_s by (auto simp: js_def)
  ultimately have 9: "handleSearch [223] = Some (js ''/stock/SS'')"
    by (simp add: normalize_sharp_s k)
  from w7 have "handleSearch [55297, 56360] =
      (if trim [55297, 56360] = [] then None
       else Some (js ''/stock/'' @ toUpperCase (trim [55297, 56360])))"
    by blast
  moreover have "trim [55297, 56360] \<noteq> []"
    using normalize_deseret by auto
  ultimately have 10: "handleSearch [55297, 56360] = Some (js ''/stock/'' @ [55297, 56320])"
    by (simp add: normalize_deseret)
  from e 1 g 2 f 3 4 5 trim_nbsp 6 7 8 9 10 show ?thesis by blast
qed

section \<open>A ticker that does not exist\<close>

text \<open>
  Modelled from the spec: on \<open>NotFound\<close> from the Upstream Client (4.4, step 6) \<open>getStock\<close>
  returns the "ticker not found" result, which is no record, after the one call to the
  upstream; the cache and the counts stay as they were.
\<close>

lemma getStock_not_found:
  assumes "tickerFormat (toUpperCase (trim raw))"
    and "fetchQuote p (toUpperCase (trim raw)) = Inl NotFound"
  shows "getStock p now raw st =
     (TickerNotFound, st\<lparr>calls := calls st @ [UpstreamQuote (toUpperCase (trim raw))]\<rparr>)"
proof -
  from assms(1) have "toUpperCase (trim raw) \<noteq> []" by (auto simp: tickerFormat_def)
  with assms show ?thesis by (simp add: getStock_def Let_def)
qed

lemma getStock_not_found_ZZZZ:
  "getStock downCollaborators 0 (js ''ZZZZ'') emptyStore =
     (TickerNotFound, emptyStore\<lparr>calls := [UpstreamQuote (js ''ZZZZ'')]\<rparr>)"
proof -
  have f: "tickerFormat (js ''ZZZZ'')"
    by (simp add: js_def tickerFormat_def isUpperAlnum_def)
  then have z: "toUpperCase (trim (js ''ZZZZ'')) = js ''ZZZZ''" by (rule tickerFormat_fixed)
  have "fetchQuote downCollaborators (js ''ZZZZ'') = Inl NotFound"
    by (simp add: downCollaborators_def)
  with f z getStock_not_found [of "js ''ZZZZ''" downCollaborators 0 emptyStore]
  show ?thesis by (simp add: emptyStore_def)
qed

text \<open>
  The page, lines 133 to 155: the warning that no data was found is shown when the page
  is not loading, holds no error and holds no stock info; the detail page never is that
  warning.
\<close>

lemma renderDetail_not_alert: "renderDetail t s info \<noteq> Inr (NotFoundAlert m)"
  by (simp add: renderDetail_def Let_def split: sum.splits)

lemma fetchHistoricalData_keeps:
  "stockInfo (snd (fetchHistoricalData t q h s)) = stockInfo s \<and>
   error (snd (fetchHistoricalData t q h s)) = error s \<and>
   tabValue (snd (fetchHistoricalData t q h s)) = tabValue s"
  by (simp add: fetchHistoricalData_def split: response.splits body.splits)

lemma fetchStockData_unsuccessful_state:
  assumes "\<not> truthy success"
  shows "fetchStockData t (Resolved (Body success d)) h s =
     (GetStockInfo t # fst (fetchHistoricalData t (timeRange s) h (s\<lparr>loading := True, error := None\<rparr>)),
      (snd (fetchHistoricalData t (timeRange s) h (s\<lparr>loading := True, error := None\<rparr>)))\<lparr>loading := False\<rparr>)"
  using assms by (simp add: fetchStockData_def Let_def split: prod.splits)

text \<open>
  A page that holds no stock info, as a page just mounted does, and gets a stock-info
  response without success shows the warning.
\<close>

lemma fetchStockData_unsuccessful:
  assumes "stockInfo s = None" "\<not> truthy success"
  shows "StockPage t (snd (fetchStockData t (Resolved (Body success d)) h s)) =
     Inr (NotFoundAlert (''Stock data not found for ticker: '' @ t))"
  using assms(1)
  by (simp add: fetchStockData_unsuccessful_state [OF assms(2)] fetchHistoricalData_keeps
      StockPage_def)

text \<open>A response that delivers a record, degraded or not, never shows the warning.\<close>

lemma fetchStockData_delivered:
  assumes "truthy success"
  shows "StockPage t (snd (fetchStockData t (Resolved (Body success (Some info))) h s)) \<noteq>
     Inr (NotFoundAlert m)"
proof -
  have "fetchStockData t (Resolved (Body success (Some info))) h s =
      (GetStockInfo t #
         fst (fetchHistoricalData t (timeRange s) h (s\<lparr>loading := True, error := None, stockInfo := Some info\<rparr>)),
       (snd (fetchHistoricalData t (timeRange s) h (s\<lparr>loading := True, error := None, stockInfo := Some info\<rparr>)))
         \<lparr>loading := False\<rparr>)"
    using assms by (simp add: fetchStockData_def Let_def split: prod.splits)
  then show ?thesis
    by (simp add: fetchHistoricalData_keeps StockPage_def renderDetail_not_alert)
qed

text \<open>
  A stock-info request that is rejected, as a request answered with an error status is,
  shows the alert of a failed load, not the warning.
\<close>

lemma fetchStockData_rejected:
  "StockPage t (snd (fetchStockData t Rejected h s)) = Inr (ErrorAlert loadFailed)"
  by (simp add: fetchStockData_def StockPage_def loadFailed_def)




section \<open>The periods of a history request\<close>

text \<open>What stays true of the page whatever happens: the range it holds is one of the five.\<close>

definition historyPeriodsOk :: "string \<Rightarrow> request list \<Rightarrow> bool" where
  "historyPeriodsOk t reqs =
     list_all (\<lambda>r. case r of GetStockHistory t' q \<Rightarrow> t' = t \<and> q \<in> set validPeriods | _ \<Rightarrow> True) reqs"

lemma timeRanges_periods: "map snd timeRanges = validPeriods"
  by (simp add: timeRanges_def validPeriods_def)

lemma timeRanges_nth: "k < length timeRanges \<Longrightarrow> snd (timeRanges ! k) \<in> set validPeriods"
  using timeRanges_periods by (metis length_map nth_map nth_mem)

lemma fetchHistoricalData_periods:
  assumes "timeRange s \<in> set validPeriods" "q \<in> set validPeriods"
  shows "historyPeriodsOk t (fst (fetchHistoricalData t q h s)) \<and>
     timeRange (snd (fetchHistoricalData t q h s)) \<in> set validPeriods"
  using assms
  by (auto simp: fetchHistoricalData_def historyPeriodsOk_def split: response.splits body.splits)

lemma fetchStockData_periods:
  assumes "timeRange s \<in> set validPeriods"
  shows "historyPeriodsOk t (fst (fetchStockData t i h s)) \<and>
     timeRange (snd (fetchStockData t i h s)) \<in> set validPeriods"
proof (cases i)
  case Rejected
  with assms show ?thesis by (simp add: fetchStockData_def historyPeriodsOk_def)
next
  case (Resolved b)
  show ?thesis
  proof (cases b)
    case NoBody
    with Resolved assms show ?thesis by (simp add: fetchStockData_def historyPeriodsOk_def)
  next
    case (Body success d)
    define s2 where "s2 = (if truthy success then s\<lparr>loading := True, error := None, stockInfo := d\<rparr>
      else s\<lparr>loading := True, error := None\<rparr>)"
    have r: "timeRange s2 \<in> set validPeriods" using assms by (simp add: s2_def)
    have e: "fetchStockData t i h s =
        (GetStockInfo t # fst (fetchHistoricalData t (timeRange s) h s2),
         (snd (fetchHistoricalData t (timeRange s) h s2))\<lparr>loading := False\<rparr>)"
      by (simp add: Resolved Body fetchStockData_def Let_def s2_def split: prod.splits)
    from fetchHistoricalData_periods [OF r assms, of t h] show ?thesis
      by (simp add: e historyPeriodsOk_def)
  qed
qed

lemma handle_periods:
  assumes "timeRange s \<in> set validPeriods"
  shows "historyPeriodsOk t (fst (handle t e s)) \<and>
     timeRange (snd (handle t e s)) \<in> set validPeriods"
proof (cases e)
  case (TickerEffect i h)
  then show ?thesis using fetchStockData_periods [OF assms] by simp
next
  case (ClickRange k h)
  then show ?thesis
    using fetchHistoricalData_periods [OF assms] timeRanges_nth [of k] assms
    by (simp add: historyPeriodsOk_def)
next
  case (TabChange v)
  then show ?thesis using assms by (simp add: handleTabChange_def historyPeriodsOk_def)
next
  case (Analyze r)
  then show ?thesis
    using assms
    by (auto simp: handleAnalyze_def historyPeriodsOk_def
        split: response.splits body.splits option.splits)
qed

lemma run_periods:
  "timeRange s \<in> set validPeriods \<Longrightarrow>
   historyPeriodsOk t (fst (run t es s)) \<and> timeRange (snd (run t es s)) \<in> set validPeriods"
proof (induction es arbitrary: s)
  case Nil
  then show ?case by (simp add: historyPeriodsOk_def)
next
  case (Cons e es)
  from handle_periods [OF Cons.prems, of t e]
  have h: "historyPeriodsOk t (fst (handle t e s))"
    and r: "timeRange (snd (handle t e s)) \<in> set validPeriods"
    by simp_all
  from Cons.IH [OF r] h show ?case
    by (simp add: historyPeriodsOk_def case_prod_beta Let_def)
qed

text \<open>
  Claim C3. \<open>getHistory\<close> answers \<open>InvalidParameter\<close> for every period outside the five
  of \<open>1mo\<close>, \<open>3mo\<close>, \<open>6mo\<close>, \<open>1y\<close>, \<open>5y\<close>, with the store as it was (so the Upstream Client is
  not called), and for a period among them and a well-formed ticker it calls the Upstream
  Client once and does not answer \<open>InvalidParameter\<close>. The values of the range buttons of
  the page are these five periods and the range the page starts with is \<open>1y\<close>; whatever
  happens to a page mounted for a ticker, every history request it sends is for that
  ticker and for one of the five periods.
\<close>

theorem history_periods:
  "(period \<notin> set validPeriods \<longrightarrow> getHistory p raw period st = (Inl InvalidParameter, st)) \<and>
   (period \<in> set validPeriods \<and> tickerFormat (toUpperCase (trim raw)) \<longrightarrow>
      fst (getHistory p raw period st) \<noteq> Inl InvalidParameter \<and>
      calls (snd (getHistory p raw period st)) =
        calls st @ [UpstreamHistory (toUpperCase (trim raw)) period]) \<and>
   set validPeriods = {''1mo'', ''3mo'', ''6mo'', ''1y'', ''5y''} \<and>
   map snd timeRanges = validPeriods \<and>
   timeRange initialState = ''1y'' \<and>
   (GetStockHistory t' period' \<in> set (fst (run t es initialState)) \<longrightarrow>
      t' = t \<and> period' \<in> set validPeriods)"
proof -
  have 1: "period \<notin> set validPeriods \<longrightarrow> getHistory p raw period st = (Inl InvalidParameter, st)"
    by (simp add: getHistory_def)
  have 2: "fst (getHistory p raw period st) \<noteq> Inl InvalidParameter \<and>
      calls (snd (getHistory p raw period st)) =
        calls st @ [UpstreamHistory (toUpperCase (trim raw)) period]"
    if "period \<in> set validPeriods" "tickerFormat (toUpperCase (trim raw))"
  proof -
    from that(2) have "toUpperCase (trim raw) \<noteq> []" by (auto simp: tickerFormat_def)
    with that show ?thesis by (simp add: getHistory_def Let_def split: sum.splits)
  qed
  have 3: "set validPeriods = {''1mo'', ''3mo'', ''6mo'', ''1y'', ''5y''}"
    by (simp add: validPeriods_def)
  have 4: "timeRange initialState = ''1y''" by (simp add: initialState_def)
  then have "timeRange initialState \<in> set validPeriods" by (simp add: validPeriods_def)
  from run_periods [OF this, of t es]
  have "historyPeriodsOk t (fst (run t es initialState))" by simp
  then have 5: "GetStockHistory t' period' \<in> set (fst (run t es initialState)) \<longrightarrow>
      t' = t \<and> period' \<in> set validPeriods"
    by (auto simp: historyPeriodsOk_def list_all_iff)
  from 1 2 3 4 5 timeRanges_periods show ?thesis by blast
qed

theorem history_periods_witness:
  "''2w'' \<notin> set validPeriods \<and>
   getHistory downCollaborators (js ''AAPL'') ''2w'' emptyStore = (Inl InvalidParameter, emptyStore) \<and>
   ''1y'' \<in> set validPeriods \<and> tickerFormat (toUpperCase (trim (js ''AAPL''))) \<and>
   fst (getHistory downCollaborators (js ''AAPL'') ''1y'' emptyStore) \<noteq> Inl InvalidParameter \<and>
   calls (snd (getHistory downCollaborators (js ''AAPL'') ''1y'' emptyStore)) =
     [UpstreamHistory (js ''AAPL'') ''1y''] \<and>
   fst (run ''AAPL'' [TickerEffect (Resolved (Body (JBool True) (Some flatStock))) Rejected,
                      ClickRange 0 Rejected] initialState) =
     [GetStockInfo ''AAPL'', GetStockHistory ''AAPL'' ''1y'', GetStockHistory ''AAPL'' ''1mo''] \<and>
   ''1mo'' \<in> set validPeriods"
proof -
  have f: "tickerFormat (js ''AAPL'')" by (simp add: js_def tickerFormat_def isUpperAlnum_def)
  then have a: "toUpperCase (trim (js ''AAPL'')) = js ''AAPL''" by (rule tickerFormat_fixed)
  have n: "''2w'' \<notin> set validPeriods" and y: "''1y'' \<in> set validPeriods"
    by (simp_all add: validPeriods_def)
  have c: "calls emptyStore = []" by (simp add: emptyStore_def)
  have r: "fst (run ''AAPL'' [TickerEffect (Resolved (Body (JBool True) (Some flatStock))) Rejected,
      ClickRange 0 Rejected] initialState) =
        [GetStockInfo ''AAPL'', GetStockHistory ''AAPL'' ''1y'', GetStockHistory ''AAPL'' ''1mo'']"
    by (simp add: fetchStockData_def fetchHistoricalData_def timeRanges_def initialState_def
        Let_def)
  note w1 = history_periods [of "''2w''" downCollaborators "js ''AAPL''" emptyStore]
  note w2 = history_periods [of "''1y''" downCollaborators "js ''AAPL''" emptyStore "''AAPL''" "''1mo''"
      "''AAPL''" "[TickerEffect (Resolved (Body (JBool True) (Some flatStock))) Rejected,
      ClickRange 0 Rejected]"]
  from w1 n have 1: "getHistory downCollaborators (js ''AAPL'') ''2w'' emptyStore =
      (Inl InvalidParameter, emptyStore)"
    by blast
  from w2 y a f have 2: "fst (getHistory downCollaborators (js ''AAPL'') ''1y'' emptyStore) \<noteq> Inl InvalidParameter"
    and 3: "calls (snd (getHistory downCollaborators (js ''AAPL'') ''1y'' emptyStore)) =
      [UpstreamHistory (js ''AAPL'') ''1y'']"
    by (simp_all add: c)
  from w2 r have 4: "''1mo'' \<in> set validPeriods" by simp
  from n y a f 1 2 3 4 r show ?thesis by simp
qed

end
